theory Spec2Isabelle
  imports Main "HOL-Library.AList" "HOL-Library.Char_ord" "HOL-Library.List_Lexorder"
begin

section \<open>JavaScript values\<close>

text \<open>
  The values that flow through \<^verbatim>\<open>Client.ts\<close>: JSON trees, the \<^verbatim>\<open>undefined\<close> value, the
  opaque \<^verbatim>\<open>Response\<close> object that the transport hands back for a body that is neither
  JSON nor text, and a promise, named by its identity (the reference cache holds promises
  next to resolved values). An object is an association list, so that the key order is kept.
\<close>

datatype jsval =
    Undefined
  | Null
  | Bool bool
  | Num int
  | Str string
  | Arr "jsval list"
  | Obj "(string \<times> jsval) list"
  | Response string
  | Promise nat

text \<open>JavaScript truthiness, as tested by \<^verbatim>\<open>if (x)\<close>, \<^verbatim>\<open>!x\<close> and \<^verbatim>\<open>filter(Boolean)\<close>.\<close>

fun truthy :: "jsval \<Rightarrow> bool" where
  "truthy Undefined = False"
| "truthy Null = False"
| "truthy (Bool b) = b"
| "truthy (Num n) = (n \<noteq> 0)"
| "truthy (Str s) = (s \<noteq> [])"
| "truthy (Arr _) = True"
| "truthy (Obj _) = True"
| "truthy (Response _) = True"
| "truthy (Promise _) = True"

section \<open>Strings\<close>

definition is_space :: "char \<Rightarrow> bool" where
  "is_space c = (c \<in> set [CHR '' '', CHR 0x09, CHR 0x0A, CHR 0x0B, CHR 0x0C, CHR 0x0D])"

text \<open>\<^verbatim>\<open>String.prototype.trim\<close>.\<close>

definition trim :: "string \<Rightarrow> string" where
  "trim s = rev (dropWhile is_space (rev (dropWhile is_space s)))"

text \<open>\<^verbatim>\<open>s.split(".")\<close>: the segments between the dots; the empty string has one segment.\<close>

fun split_dot :: "string \<Rightarrow> string list" where
  "split_dot [] = [[]]"
| "split_dot (c # cs) =
     (if c = CHR ''.'' then [] # split_dot cs
      else (case split_dot cs of
              [] \<Rightarrow> [[c]]
            | seg # segs \<Rightarrow> (c # seg) # segs))"

text \<open>The decimal numeral of a number, as \<^verbatim>\<open>String(n)\<close> writes a non-negative integer.\<close>

definition digit :: "nat \<Rightarrow> char" where
  "digit d = ''0123456789'' ! d"

fun show_nat :: "nat \<Rightarrow> string" where
  "show_nat n = (if n < 10 then [digit n] else show_nat (n div 10) @ [digit (n mod 10)])"

declare show_nat.simps [simp del]

section \<open>resolveRefs: sanitising and grouping the paths\<close>

text \<open>
  Step 1 of \<^verbatim>\<open>resolveRefs\<close>: \<^verbatim>\<open>.filter(Boolean).map(path => String(path).trim()).filter(Boolean)\<close>.
  A string is falsy exactly when it is empty.
\<close>

definition sanitize :: "string list \<Rightarrow> string list" where
  "sanitize ps = filter (\<lambda>p. p \<noteq> []) (map trim (filter (\<lambda>p. p \<noteq> []) ps))"

text \<open>
  Step 2: \<^verbatim>\<open>paths.filter((p, i) => paths.indexOf(p, i + 1) == -1)\<close>. A path is dropped
  when it occurs again later in the list.
\<close>

fun remove_duplicates :: "string list \<Rightarrow> string list" where
  "remove_duplicates [] = []"
| "remove_duplicates (p # ps) =
     (if p \<in> set ps then remove_duplicates ps else p # remove_duplicates ps)"

definition depth :: "string \<Rightarrow> nat" where
  "depth path = length (split_dot path)"

text \<open>
  Step 4: \<^verbatim>\<open>groups[len].push(path)\<close>, creating the group the first time a length is seen.
  The object \<^verbatim>\<open>groups\<close> is an association list from the length to the paths of that length.
\<close>

definition push_group :: "string \<Rightarrow> (nat \<times> string list) list \<Rightarrow> (nat \<times> string list) list" where
  "push_group path groups =
     (let len = depth path in
      case map_of groups len of
        None \<Rightarrow> groups @ [(len, [path])]
      | Some g \<Rightarrow> AList.update len (g @ [path]) groups)"

definition make_groups :: "string list \<Rightarrow> (nat \<times> string list) list" where
  "make_groups paths = fold push_group paths []"

text \<open>
  \<^verbatim>\<open>Object.keys(groups)\<close>: the keys of \<^verbatim>\<open>groups\<close> are array indices, which JavaScript
  enumerates in ascending numeric order, each as its decimal string.
\<close>

definition object_keys :: "(nat \<times> string list) list \<Rightarrow> string list" where
  "object_keys groups = map show_nat (sort (map fst groups))"

text \<open>
  \<^verbatim>\<open>Array.prototype.sort()\<close> without a comparator orders the elements as strings, by code
  unit. On \<^typ>\<open>string\<close> that is the lexicographic order of \<^typ>\<open>char list\<close>.
\<close>

definition js_sort :: "string list \<Rightarrow> string list" where
  "js_sort ks = sort ks"

text \<open>
  Step 5: \<^verbatim>\<open>Object.keys(groups).sort().forEach(len => ... groups[len] ...)\<close>. The result is
  the list of groups in the order in which their tasks are chained, each with its key.
\<close>

definition group_of_key :: "(nat \<times> string list) list \<Rightarrow> string \<Rightarrow> string list" where
  "group_of_key groups k =
     (case find (\<lambda>(len, g). show_nat len = k) groups of
        None \<Rightarrow> []
      | Some (len, g) \<Rightarrow> g)"

definition execution_order :: "string list \<Rightarrow> (string \<times> string list) list" where
  "execution_order resolveReferences =
     (let paths = remove_duplicates (sanitize resolveReferences);
          groups = make_groups paths
      in map (\<lambda>k. (k, group_of_key groups k)) (js_sort (object_keys groups)))"

text \<open>The depths of the groups, in the order in which they are processed.\<close>

definition depth_order :: "string list \<Rightarrow> nat list" where
  "depth_order resolveReferences =
     map (\<lambda>(k, g). case g of [] \<Rightarrow> 0 | p # _ \<Rightarrow> depth p) (execution_order resolveReferences)"

text \<open>What \<open>make_groups\<close> keeps true of the groups: the keys are distinct and are depths of
  the paths, and every group is the non-empty list of paths of the depth that is its key.\<close>

definition grouped :: "string list \<Rightarrow> (nat \<times> string list) list \<Rightarrow> bool" where
  "grouped paths groups =
     (distinct (map fst groups)
      \<and> fst ` set groups \<subseteq> depth ` set paths
      \<and> (\<forall>k g. map_of groups k = Some g \<longrightarrow> g \<noteq> [] \<and> (\<forall>p \<in> set g. depth p = k)))"

section \<open>Helpers of the library module\<close>

text \<open>
  Property access \<^verbatim>\<open>v[key]\<close> on a value that is neither \<^verbatim>\<open>null\<close> nor \<^verbatim>\<open>undefined\<close>. An
  array answers to its indices (written as canonical decimal numerals), a string to the
  indices of its characters; a missing property reads as \<^verbatim>\<open>undefined\<close>. The keys of an object
  are taken to be distinct, as \<^verbatim>\<open>JSON.parse\<close> produces them.
\<close>

definition index_of_key :: "nat \<Rightarrow> string \<Rightarrow> nat option" where
  "index_of_key n k = find (\<lambda>i. show_nat i = k) [0..<n]"

fun get_prop :: "jsval \<Rightarrow> string \<Rightarrow> jsval" where
  "get_prop (Obj kv) k = (case map_of kv k of None \<Rightarrow> Undefined | Some v \<Rightarrow> v)"
| "get_prop (Arr xs) k = (case index_of_key (length xs) k of None \<Rightarrow> Undefined | Some i \<Rightarrow> xs ! i)"
| "get_prop (Str s) k = (case index_of_key (length s) k of None \<Rightarrow> Undefined | Some i \<Rightarrow> Str [s ! i])"
| "get_prop _ k = Undefined"

text \<open>Assignment \<^verbatim>\<open>v[key] = x\<close>, as far as the resolver needs it: on an object and on an
  existing index of an array.\<close>

fun set_prop :: "jsval \<Rightarrow> string \<Rightarrow> jsval \<Rightarrow> jsval" where
  "set_prop (Obj kv) k x = Obj (AList.update k x kv)"
| "set_prop (Arr xs) k x = (case index_of_key (length xs) k of None \<Rightarrow> Arr xs | Some i \<Rightarrow> Arr (xs[i := x]))"
| "set_prop v k x = v"

text \<open>
  Modelled from the spec: \<^verbatim>\<open>getPath\<close> of the library module \<^verbatim>\<open>./lib\<close> is imported by
  \<^verbatim>\<open>Client.ts\<close> and is not part of the sources. Its documentation in \<^verbatim>\<open>Client.getPath\<close> reads:
  "Walks through an object (or array) and returns the value found at the provided path. The
  path can only be a dot-separated string. If the path is invalid returns undefined."
\<close>

fun walk :: "jsval \<Rightarrow> string list \<Rightarrow> jsval" where
  "walk v [] = v"
| "walk v (k # ks) = (if truthy v then walk (get_prop v k) ks else Undefined)"

definition getPath :: "jsval \<Rightarrow> string \<Rightarrow> jsval" where
  "getPath obj path = (let p = trim path in if p = [] then obj else walk obj (split_dot p))"

text \<open>
  Modelled from the spec: \<^verbatim>\<open>setPath\<close> of \<^verbatim>\<open>./lib\<close>, the "generic path set" of the
  specification. It walks to the parent of the last segment and assigns there; when a segment
  on the way is missing nothing is assigned. Values are trees here: the assignment rebuilds
  the spine of the tree, where the source mutates the parent in place.
\<close>

fun set_walk :: "jsval \<Rightarrow> string list \<Rightarrow> jsval \<Rightarrow> jsval" where
  "set_walk v [] x = v"
| "set_walk v [k] x = (if truthy v then set_prop v k x else v)"
| "set_walk v (k # k' # ks) x =
     (if truthy v \<and> truthy (get_prop v k)
      then set_prop v k (set_walk (get_prop v k) (k' # ks) x) else v)"

definition setPath :: "jsval \<Rightarrow> string \<Rightarrow> jsval \<Rightarrow> jsval" where
  "setPath obj path x = set_walk obj (split_dot (trim path)) x"

text \<open>Modelled from the spec: \<^verbatim>\<open>makeArray\<close> of \<^verbatim>\<open>./lib\<close> wraps a value that is not an
  array into a one-element array.\<close>

fun makeArray :: "jsval \<Rightarrow> jsval list" where
  "makeArray (Arr xs) = xs"
| "makeArray v = [v]"

fun isArray :: "jsval \<Rightarrow> bool" where
  "isArray (Arr xs) = True"
| "isArray v = False"

text \<open>
  The own enumerable properties that \<^verbatim>\<open>Object.assign(target, source)\<close> copies from its
  source: the entries of an object, the indexed elements of an array, the indexed characters
  of a string, and nothing for any other value.
\<close>

fun own_entries :: "jsval \<Rightarrow> (string \<times> jsval) list" where
  "own_entries (Obj kv) = kv"
| "own_entries (Arr xs) = zip (map show_nat [0..<length xs]) xs"
| "own_entries (Str s) = zip (map show_nat [0..<length s]) (map (\<lambda>c. Str [c]) s)"
| "own_entries v = []"

definition object_assign :: "(string \<times> 'v) list \<Rightarrow> (string \<times> 'v) list \<Rightarrow> (string \<times> 'v) list" where
  "object_assign target source = fold (\<lambda>(k, v). AList.update k v) source target"

text \<open>\<^verbatim>\<open>s.indexOf(p) != -1\<close> on strings.\<close>

fun contains :: "string \<Rightarrow> string \<Rightarrow> bool" where
  "contains [] p = (p = [])"
| "contains (c # cs) p = (take (length p) (c # cs) = p \<or> contains cs p)"

text \<open>String conversion (\<^verbatim>\<open>String(v)\<close>, and \<^verbatim>\<open>"..." + v\<close>).\<close>

fun join_comma :: "string list \<Rightarrow> string" where
  "join_comma [] = []"
| "join_comma [s] = s"
| "join_comma (s # t # ss) = s @ CHR '','' # join_comma (t # ss)"

fun js_string :: "jsval \<Rightarrow> string" where
  "js_string Undefined = ''undefined''"
| "js_string Null = ''null''"
| "js_string (Bool b) = (if b then ''true'' else ''false'')"
| "js_string (Num n) = (if n < 0 then CHR ''-'' # show_nat (nat (- n)) else show_nat (nat n))"
| "js_string (Str s) = s"
| "js_string (Arr xs) =
     join_comma (map (\<lambda>x. if x = Undefined \<or> x = Null then [] else js_string x) xs)"
| "js_string (Obj kv) = ''[object Object]''"
| "js_string (Response r) = ''[object Response]''"
| "js_string (Promise p) = ''[object Promise]''"

section \<open>The client and its collaborators\<close>

text \<open>
  A rejected promise or a thrown exception is a value of \<open>error\<close>: \<open>HttpError\<close> carries the
  HTTP status, \<open>Error\<close> and \<open>TypeError\<close> carry their message and have no \<^verbatim>\<open>status\<close>.
  \<open>Unsettled\<close> is not an error of the program: it stands for a call whose promise has not
  settled, because the recursion budget of the model is used up or because the call waits
  for a promise that nobody settles. No handler of the program reacts to it.
\<close>

datatype error = HttpError nat | Error string | TypeError string | Unsettled

fun status :: "error \<Rightarrow> nat option" where
  "status (HttpError n) = Some n"
| "status e = None"

text \<open>\<^verbatim>\<open>fhirclient.RequestOptions\<close>: the options of \<^verbatim>\<open>fetch\<close> together with the url.\<close>

record request_options =
  url :: "string option"
  http_method :: "string option"
  headers :: "(string \<times> string) list"
  body :: "string option"
  signal :: "nat option"
  mode :: "string option"
  credentials :: "string option"

definition no_options :: request_options where
  "no_options = \<lparr>url = None, http_method = None, headers = [], body = None, signal = None,
                  mode = None, credentials = None\<rparr>"

text \<open>\<^verbatim>\<open>fhirclient.ClientState\<close>, with the fields that the request pipeline reads or writes.
  A \<^verbatim>\<open>tokenResponse\<close> that is absent behaves as the empty object in all of them.\<close>

record client_state =
  serverUrl :: string
  tokenUri :: "string option"
  key :: "string option"
  username :: "string option"
  password :: "string option"
  tokenResponse :: "(string \<times> jsval) list"

text \<open>
  The promise kept in \<^verbatim>\<open>_refreshTask\<close>: its identity, and the token exchange it was started
  with.
\<close>

record refresh_task =
  task_id :: nat
  task_uri :: string
  task_options :: request_options

text \<open>What the storage of the environment holds under a key: the key of the state (under
  \<^verbatim>\<open>SMART_KEY\<close>), or a state.\<close>

datatype stored = StoredKey string | StoredState client_state

text \<open>The reference cache \<^verbatim>\<open>_resolvedRefs\<close>, a plain object: under a reference id, either
  the promise of the started fetch or the resolved value.\<close>

type_synonym cache = "(string \<times> jsval) list"

text \<open>
  A client instance with the world around it: its state, the slot \<^verbatim>\<open>_refreshTask\<close>, the
  storage of its environment, and what has been observed so far: the calls of the transport
  (\<open>net\<close>), the diagnostics (\<open>diag\<close>), the calls of \<^verbatim>\<open>onPage\<close> (\<open>pages\<close>) and the outcomes of
  the refresh promises that have settled (\<open>settled\<close>). \<open>next_id\<close> numbers the promises.
\<close>

record client =
  state :: client_state
  refreshTask :: "refresh_task option"
  storage :: "(string \<times> stored) list"
  net :: "(string \<times> request_options) list"
  diag :: "string list"
  pages :: "(jsval \<times> cache) list"
  settled :: "(nat \<times> (error + client_state)) list"
  next_id :: nat

text \<open>
  The collaborators that \<^verbatim>\<open>Client.ts\<close> imports and that are not part of the sources are
  parameters: the transport \<^verbatim>\<open>request\<close> of \<^verbatim>\<open>./lib\<close> (the outcome of sending an url with
  options: a server is a function of what it is sent), \<^verbatim>\<open>absolute\<close>, the \<^verbatim>\<open>btoa\<close> of the
  environment, \<^verbatim>\<open>encodeURIComponent\<close> and the constant \<^verbatim>\<open>SMART_KEY\<close> of \<^verbatim>\<open>./settings\<close>.
\<close>

record env =
  lib_request :: "string \<Rightarrow> request_options \<Rightarrow> error + jsval"
  absolute :: "string \<Rightarrow> string \<Rightarrow> string"
  btoa :: "string \<Rightarrow> string"
  encodeURIComponent :: "string \<Rightarrow> string"
  SMART_KEY :: string

text \<open>\<^verbatim>\<open>getPath(this, "state.tokenResponse.<field>")\<close>.\<close>

definition token_field :: "client_state \<Rightarrow> string \<Rightarrow> jsval" where
  "token_field st k = get_prop (Obj (tokenResponse st)) k"

definition truthy_string :: "string option \<Rightarrow> bool" where
  "truthy_string s = (case s of None \<Rightarrow> False | Some x \<Rightarrow> x \<noteq> [])"

definition getAuthorizationHeader :: "env \<Rightarrow> client_state \<Rightarrow> string option" where
  "getAuthorizationHeader e st =
     (let accessToken = token_field st ''access_token'' in
      if truthy accessToken then Some (''Bearer '' @ js_string accessToken)
      else if truthy_string (username st) \<and> truthy_string (password st)
      then Some (''Basic '' @ btoa e (the (username st) @ '':'' @ the (password st)))
      else None)"

text \<open>
  \<^verbatim>\<open>_clearState\<close>. The three storage calls are awaited one after the other; the model takes
  them as one step. A value under \<^verbatim>\<open>SMART_KEY\<close> that is not a string names no entry.
\<close>

definition clearState :: "env \<Rightarrow> client \<Rightarrow> client" where
  "clearState e c =
     (let k = map_of (storage c) (SMART_KEY e);
          s1 = (case k of
                  Some (StoredKey x) \<Rightarrow> if x \<noteq> [] then AList.delete x (storage c) else storage c
                | _ \<Rightarrow> storage c);
          s2 = AList.delete (SMART_KEY e) s1
      in c\<lparr>storage := s2, state := (state c)\<lparr>tokenResponse := []\<rparr>\<rparr>)"

section \<open>refresh\<close>

text \<open>\<^verbatim>\<open>scopes.indexOf(x) == -1\<close> for the value of \<^verbatim>\<open>tokenResponse.scope || ""\<close>: a substring
  test on a string, a membership test on an array, and a \<^verbatim>\<open>TypeError\<close> on a value without
  \<^verbatim>\<open>indexOf\<close>.\<close>

fun lacks :: "jsval \<Rightarrow> string \<Rightarrow> error + bool" where
  "lacks (Str s) x = Inr (\<not> contains s x)"
| "lacks (Arr xs) x = Inr (Str x \<notin> set xs)"
| "lacks v x = Inl (TypeError ''scopes.indexOf is not a function'')"

definition refresh_options :: "env \<Rightarrow> request_options \<Rightarrow> jsval \<Rightarrow> request_options" where
  "refresh_options e requestOptions refreshToken =
     requestOptions\<lparr>
       mode := Some ''cors'',
       http_method := Some ''POST'',
       headers := AList.update ''content-type'' ''application/x-www-form-urlencoded''
                    (headers requestOptions),
       body := Some (''grant_type=refresh_token&refresh_token=''
                     @ encodeURIComponent e (js_string refreshToken)),
       credentials := Some ''include''\<rparr>"

text \<open>
  The synchronous part of \<^verbatim>\<open>refresh\<close>: the three checks, each of which throws, and then the
  slot. When the slot is empty the token exchange is sent (one more entry of \<open>net\<close>) and its
  promise is put into the slot; in both cases the promise in the slot is returned.
\<close>

definition refresh :: "env \<Rightarrow> request_options \<Rightarrow> client \<Rightarrow> (error + refresh_task) \<times> client" where
  "refresh e requestOptions c0 =
     (let c = c0\<lparr>diag := diag c0 @ [''Attempting to refresh with refresh_token...'']\<rparr>;
          refreshToken = token_field (state c) ''refresh_token'' in
      if \<not> truthy refreshToken then (Inl (Error ''Unable to refresh. No refresh_token found.''), c)
      else if \<not> truthy_string (tokenUri (state c))
      then (Inl (Error ''Unable to refresh. No tokenUri found.''), c)
      else
        let sc = token_field (state c) ''scope'';
            scopes = (if truthy sc then sc else Str []) in
        case lacks scopes ''offline_access'' of
          Inl err \<Rightarrow> (Inl err, c)
        | Inr no_offline \<Rightarrow>
        (case lacks scopes ''online_access'' of
          Inl err \<Rightarrow> (Inl err, c)
        | Inr no_online \<Rightarrow>
            if no_offline \<and> no_online
            then (Inl (Error ''Unable to refresh. No offline_access or online_access scope found.''), c)
            else (case refreshTask c of
                    Some t \<Rightarrow> (Inr t, c)
                  | None \<Rightarrow>
                      let uri = the (tokenUri (state c));
                          opts = refresh_options e requestOptions refreshToken;
                          t = \<lparr>task_id = next_id c, task_uri = uri, task_options = opts\<rparr>
                      in (Inr t, c\<lparr>refreshTask := Some t,
                                    net := net c @ [(uri, opts)],
                                    next_id := Suc (next_id c)\<rparr>))))"

text \<open>
  The handlers chained onto the token exchange, run when the exchange settles with outcome
  \<open>r\<close>: the two \<^verbatim>\<open>then\<close> (check of \<^verbatim>\<open>access_token\<close>, \<^verbatim>\<open>Object.assign\<close> into
  \<^verbatim>\<open>tokenResponse\<close>), the \<^verbatim>\<open>catch\<close> (removal of the refresh token) and the \<^verbatim>\<open>finally\<close>
  (the slot is emptied, the state is stored under its key). The outcome of the promise is
  recorded in \<open>settled\<close> under the identity of the promise.
\<close>

definition check_access_token :: "error + jsval \<Rightarrow> error + jsval" where
  "check_access_token r =
     (case r of
        Inl err \<Rightarrow> Inl err
      | Inr data \<Rightarrow>
          if data = Undefined \<or> data = Null
          then Inl (TypeError ''Cannot read properties of undefined (reading access_token)'')
          else if \<not> truthy (get_prop data ''access_token'')
          then Inl (Error ''No access token received'')
          else Inr data)"

definition refresh_then :: "error + jsval \<Rightarrow> client \<Rightarrow> (error + client_state) \<times> client" where
  "refresh_then r c =
     (case check_access_token r of
        Inr data \<Rightarrow>
          let st = (state c)\<lparr>tokenResponse := object_assign (tokenResponse (state c)) (own_entries data)\<rparr>
          in (Inr st, c\<lparr>state := st, diag := diag c @ [''Received new access token'']\<rparr>)
      | Inl err \<Rightarrow>
          if truthy (token_field (state c) ''refresh_token'')
          then (Inl err, c\<lparr>state := (state c)\<lparr>tokenResponse :=
                                  AList.delete ''refresh_token'' (tokenResponse (state c))\<rparr>,
                            diag := diag c @ [''Deleting the expired or invalid refresh token.'']\<rparr>)
          else (Inl err, c))"

definition refresh_finally :: "client \<Rightarrow> client" where
  "refresh_finally c0 =
     (let c = c0\<lparr>refreshTask := None\<rparr> in
      if truthy_string (key (state c))
      then c\<lparr>storage := AList.update (the (key (state c))) (StoredState (state c)) (storage c)\<rparr>
      else c\<lparr>diag := diag c @ [''No key found in Clint.state. Cannot persist the instance.'']\<rparr>)"

definition refresh_settle :: "refresh_task \<Rightarrow> error + jsval \<Rightarrow> client \<Rightarrow> (error + client_state) \<times> client" where
  "refresh_settle t r c =
     (let (outcome, c1) = refresh_then r c;
          c2 = refresh_finally c1
      in (outcome, c2\<lparr>settled := settled c2 @ [(task_id t, outcome)]\<rparr>))"

section \<open>Options of a request\<close>

text \<open>
  \<^verbatim>\<open>fhirclient.FhirOptions\<close> as the caller passes them, every field optional. A single string
  for \<^verbatim>\<open>resolveReferences\<close> is the list of that one string. The callback \<^verbatim>\<open>onPage\<close> is a
  function of the page and of the copy of the cache; it answers with the error it throws,
  if it throws.
\<close>

record fhir_options =
  graph :: "bool option"
  flat :: "bool option"
  pageLimit :: "int option"
  resolveReferences :: "string list"
  useRefreshToken :: "bool option"
  onPage :: "(jsval \<Rightarrow> jsval \<Rightarrow> error option) option"

definition default_fhir_options :: fhir_options where
  "default_fhir_options =
     \<lparr>graph = None, flat = None, pageLimit = None, resolveReferences = [],
      useRefreshToken = None, onPage = None\<rparr>"

text \<open>The object \<^verbatim>\<open>options\<close> that \<^verbatim>\<open>request\<close> builds from them, with the defaults filled in.\<close>

record options =
  opt_graph :: bool
  opt_flat :: bool
  opt_pageLimit :: int
  opt_resolveReferences :: "string list"
  opt_useRefreshToken :: bool
  opt_onPage :: "(jsval \<Rightarrow> jsval \<Rightarrow> error option) option"

definition make_options :: "fhir_options \<Rightarrow> options" where
  "make_options fhirOptions =
     \<lparr>opt_graph = (graph fhirOptions \<noteq> Some False),
      opt_flat = (flat fhirOptions = Some True),
      opt_pageLimit = (case pageLimit fhirOptions of None \<Rightarrow> 1 | Some n \<Rightarrow> n),
      opt_resolveReferences = resolveReferences fhirOptions,
      opt_useRefreshToken = (useRefreshToken fhirOptions \<noteq> Some False),
      opt_onPage = onPage fhirOptions\<rparr>"

text \<open>The object \<^verbatim>\<open>options\<close> handed to a recursive call as its \<^verbatim>\<open>fhirOptions\<close>.\<close>

definition as_fhir_options :: "options \<Rightarrow> fhir_options" where
  "as_fhir_options opts =
     \<lparr>graph = Some (opt_graph opts), flat = Some (opt_flat opts),
      pageLimit = Some (opt_pageLimit opts),
      resolveReferences = opt_resolveReferences opts,
      useRefreshToken = Some (opt_useRefreshToken opts), onPage = opt_onPage opts\<rparr>"

text \<open>\<^verbatim>\<open>v == "text"\<close>: a string equals the text; an array is first converted to a string.\<close>

fun loose_eq_str :: "jsval \<Rightarrow> string \<Rightarrow> bool" where
  "loose_eq_str (Str s) x = (s = x)"
| "loose_eq_str (Arr xs) x = (js_string (Arr xs) = x)"
| "loose_eq_str v x = False"

section \<open>Resolving references\<close>

text \<open>
  \<^verbatim>\<open>client.request\<close> starts its transport call at once and hands back a promise. For the
  fetch of a reference the two halves are kept apart: a \<open>starter\<close> is the part of
  \<^verbatim>\<open>client.request({url, signal})\<close> that runs at the call, and the \<open>deferred\<close> it answers
  with is the rest, run when the response arrives.
\<close>

type_synonym deferred = "client \<Rightarrow> (error + jsval) \<times> client"

type_synonym starter = "request_options \<Rightarrow> client \<Rightarrow> deferred \<times> client"

text \<open>
  The state of one resolution pass: the cache, the fetches that are started and not yet
  settled (promise, reference id, rest of the request), and the outcomes of the promises
  that have settled.
\<close>

record pass =
  refs :: cache
  inflight :: "(nat \<times> string \<times> deferred) list"
  outcomes :: "(nat \<times> (error + jsval)) list"

text \<open>
  \<^verbatim>\<open>getRef\<close>, at the call: a truthy entry of the cache is handed back as it is; otherwise the
  request is started and its promise is written into the cache before anything settles.
\<close>

definition getRef :: "starter \<Rightarrow> string \<Rightarrow> nat option \<Rightarrow> pass \<Rightarrow> client \<Rightarrow> jsval \<times> pass \<times> client" where
  "getRef start refId sig p c =
     (let sub = get_prop (Obj (refs p)) refId in
      if \<not> truthy sub then
        let (k, c1) = start (no_options\<lparr>url := Some refId, signal := sig\<rparr>) c;
            pid = next_id c1
        in (Promise pid,
            p\<lparr>refs := AList.update refId (Promise pid) (refs p),
              inflight := inflight p @ [(pid, refId, k)]\<rparr>,
            c1\<lparr>next_id := Suc pid\<rparr>)
      else (sub, p, c))"

text \<open>\<^verbatim>\<open>getRef\<close>, when the started request settles with \<open>r\<close>: the two handlers of its
  \<^verbatim>\<open>then\<close>.\<close>

definition getRef_settled :: "string \<Rightarrow> nat \<Rightarrow> error + jsval \<Rightarrow> pass \<Rightarrow> pass" where
  "getRef_settled refId pid r p =
     (case r of
        Inr res \<Rightarrow> p\<lparr>refs := AList.update refId res (refs p), outcomes := outcomes p @ [(pid, Inr res)]\<rparr>
      | Inl err \<Rightarrow> p\<lparr>refs := AList.delete refId (refs p), outcomes := outcomes p @ [(pid, Inl err)]\<rparr>)"

text \<open>
  \<^verbatim>\<open>resolveRef\<close>, at the call: the map over the items of the node. Each item with a truthy
  \<^verbatim>\<open>reference\<close> calls \<^verbatim>\<open>getRef\<close> and chains its handlers onto what comes back; the model
  notes the place to splice (\<^verbatim>\<open>path\<close>, or \<^verbatim>\<open>path.i\<close> for an element of an array) with the
  promise. What comes back from the cache may be a resolved value, which has no \<^verbatim>\<open>then\<close>.
\<close>

fun resolve_items ::
  "starter \<Rightarrow> string \<Rightarrow> bool \<Rightarrow> nat option \<Rightarrow> nat \<Rightarrow> jsval list \<Rightarrow> pass \<Rightarrow> client
   \<Rightarrow> (error + (string \<times> nat) list) \<times> pass \<times> client" where
  "resolve_items start path is_arr sig i [] p c = (Inr [], p, c)"
| "resolve_items start path is_arr sig i (item # items) p c =
     (if item = Undefined \<or> item = Null
      then (Inl (TypeError ''Cannot read properties of undefined (reading reference)''), p, c)
      else
        let ref = get_prop item ''reference'' in
        if truthy ref then
          (case getRef start (js_string ref) sig p c of
             (Promise pid, p1, c1) \<Rightarrow>
               (case resolve_items start path is_arr sig (Suc i) items p1 c1 of
                  (Inl err, p2, c2) \<Rightarrow> (Inl err, p2, c2)
                | (Inr ws, p2, c2) \<Rightarrow>
                    (Inr ((if is_arr then path @ ''.'' @ show_nat i else path, pid) # ws), p2, c2))
           | (sub, p1, c1) \<Rightarrow> (Inl (TypeError ''getRef(...).then is not a function''), p1, c1))
        else resolve_items start path is_arr sig (Suc i) items p c)"

definition resolveRef ::
  "starter \<Rightarrow> jsval \<Rightarrow> string \<Rightarrow> nat option \<Rightarrow> pass \<Rightarrow> client
   \<Rightarrow> (error + (string \<times> nat) list) \<times> pass \<times> client" where
  "resolveRef start obj path sig p c =
     (let node = getPath obj path in
      if truthy node then resolve_items start path (isArray node) sig 0 (makeArray node) p c
      else (Inr [], p, c))"

text \<open>
  The handlers that \<^verbatim>\<open>resolveRef\<close> chains onto the promise of one reference, run when that
  promise settles with \<open>r\<close>: the \<^verbatim>\<open>then\<close> splices when \<^verbatim>\<open>graph\<close> is set, the \<^verbatim>\<open>catch\<close>
  lets an error pass unless its status is 404.
\<close>

definition ref_settled :: "bool \<Rightarrow> string \<Rightarrow> jsval \<Rightarrow> error + jsval \<Rightarrow> error + jsval" where
  "ref_settled graph_on target obj r =
     (case r of
        Inr sub \<Rightarrow> Inr (if graph_on then setPath obj target sub else obj)
      | Inl ex \<Rightarrow> if status ex \<noteq> Some 404 then Inl ex else Inr obj)"

text \<open>One group, at the call: \<^verbatim>\<open>group.map(path => resolveRef(obj, path, ...))\<close>.\<close>

fun resolve_group ::
  "starter \<Rightarrow> jsval \<Rightarrow> string list \<Rightarrow> nat option \<Rightarrow> pass \<Rightarrow> client
   \<Rightarrow> (error + (string \<times> nat) list) \<times> pass \<times> client" where
  "resolve_group start obj [] sig p c = (Inr [], p, c)"
| "resolve_group start obj (path # paths) sig p c =
     (case resolveRef start obj path sig p c of
        (Inl err, p1, c1) \<Rightarrow> (Inl err, p1, c1)
      | (Inr ws, p1, c1) \<Rightarrow>
          (case resolve_group start obj paths sig p1 c1 of
             (Inl err, p2, c2) \<Rightarrow> (Inl err, p2, c2)
           | (Inr ws', p2, c2) \<Rightarrow> (Inr (ws @ ws'), p2, c2)))"

text \<open>The response of a started fetch arrives: the rest of its request runs, then the
  handlers of \<^verbatim>\<open>getRef\<close>. A promise that is already settled is left alone.\<close>

definition settle_promise :: "nat \<Rightarrow> pass \<Rightarrow> client \<Rightarrow> pass \<times> client" where
  "settle_promise pid p c =
     (case find (\<lambda>(q, refId, k). q = pid) (inflight p) of
        None \<Rightarrow> (p, c)
      | Some (q, refId, k) \<Rightarrow>
          let (r, c1) = k c
          in (getRef_settled refId pid r (p\<lparr>inflight := filter (\<lambda>(q, refId, k). q \<noteq> pid) (inflight p)\<rparr>), c1))"

text \<open>
  \<^verbatim>\<open>Promise.all\<close> over the references of one group of one resource: the promises settle in
  the order in which they are awaited, and the first rejection that the handlers let pass
  rejects the whole.
\<close>

fun await_all ::
  "bool \<Rightarrow> (string \<times> nat) list \<Rightarrow> jsval \<Rightarrow> pass \<Rightarrow> client \<Rightarrow> (error + jsval) \<times> pass \<times> client" where
  "await_all graph_on [] obj p c = (Inr obj, p, c)"
| "await_all graph_on ((target, pid) # ws) obj p c =
     (let (p1, c1) = settle_promise pid p c in
      case map_of (outcomes p1) pid of
        None \<Rightarrow> (Inl Unsettled, p1, c1)
      | Some r \<Rightarrow>
          (case ref_settled graph_on target obj r of
             Inl ex \<Rightarrow> (Inl ex, p1, c1)
           | Inr obj1 \<Rightarrow> await_all graph_on ws obj1 p1 c1))"

text \<open>The groups of one resource, one after the other: each group is started on the
  resource as the groups before it have left it.\<close>

fun resolve_groups ::
  "starter \<Rightarrow> bool \<Rightarrow> nat option \<Rightarrow> string list list \<Rightarrow> jsval \<Rightarrow> pass \<Rightarrow> client
   \<Rightarrow> (error + jsval) \<times> pass \<times> client" where
  "resolve_groups start graph_on sig [] obj p c = (Inr obj, p, c)"
| "resolve_groups start graph_on sig (g # gs) obj p c =
     (case resolve_group start obj g sig p c of
        (Inl err, p1, c1) \<Rightarrow> (Inl err, p1, c1)
      | (Inr ws, p1, c1) \<Rightarrow>
          (case await_all graph_on ws obj p1 c1 of
             (Inl err, p2, c2) \<Rightarrow> (Inl err, p2, c2)
           | (Inr obj1, p2, c2) \<Rightarrow> resolve_groups start graph_on sig gs obj1 p2 c2))"

text \<open>
  \<^verbatim>\<open>resolveRefs\<close> for the resources of one response (the one resource, or the resources of
  the entries of a Bundle, for which the source calls \<^verbatim>\<open>resolveRefs\<close> in one \<^verbatim>\<open>map\<close>). Every
  call chains its groups onto a resolved promise, so the first group of every resource is
  started before any response arrives: \<open>start_first\<close>. From there on the order of the
  responses decides; the model lets the fetches that a resource waits for arrive resource by
  resource: \<open>finish_each\<close>. The first rejection is the outcome of the whole; what the
  source leaves running in the background after a rejection is not followed.
\<close>

fun start_first ::
  "starter \<Rightarrow> string list \<Rightarrow> nat option \<Rightarrow> jsval list \<Rightarrow> pass \<Rightarrow> client
   \<Rightarrow> (error + (string \<times> nat) list list) \<times> pass \<times> client" where
  "start_first start g sig [] p c = (Inr [], p, c)"
| "start_first start g sig (obj # objs) p c =
     (case resolve_group start obj g sig p c of
        (Inl err, p1, c1) \<Rightarrow> (Inl err, p1, c1)
      | (Inr ws, p1, c1) \<Rightarrow>
          (case start_first start g sig objs p1 c1 of
             (Inl err, p2, c2) \<Rightarrow> (Inl err, p2, c2)
           | (Inr wss, p2, c2) \<Rightarrow> (Inr (ws # wss), p2, c2)))"

fun finish_each ::
  "starter \<Rightarrow> bool \<Rightarrow> nat option \<Rightarrow> string list list \<Rightarrow> (jsval \<times> (string \<times> nat) list) list
   \<Rightarrow> pass \<Rightarrow> client \<Rightarrow> (error + jsval list) \<times> pass \<times> client" where
  "finish_each start graph_on sig gs [] p c = (Inr [], p, c)"
| "finish_each start graph_on sig gs ((obj, ws) # rest) p c =
     (case await_all graph_on ws obj p c of
        (Inl err, p1, c1) \<Rightarrow> (Inl err, p1, c1)
      | (Inr obj1, p1, c1) \<Rightarrow>
          (case resolve_groups start graph_on sig gs obj1 p1 c1 of
             (Inl err, p2, c2) \<Rightarrow> (Inl err, p2, c2)
           | (Inr obj2, p2, c2) \<Rightarrow>
               (case finish_each start graph_on sig gs rest p2 c2 of
                  (Inl err, p3, c3) \<Rightarrow> (Inl err, p3, c3)
                | (Inr objs, p3, c3) \<Rightarrow> (Inr (obj2 # objs), p3, c3))))"

definition resolveRefs ::
  "starter \<Rightarrow> options \<Rightarrow> nat option \<Rightarrow> jsval list \<Rightarrow> cache \<Rightarrow> client
   \<Rightarrow> (error + jsval list) \<times> cache \<times> client" where
  "resolveRefs start opts sig objs cache c =
     (case map snd (execution_order (opt_resolveReferences opts)) of
        [] \<Rightarrow> (Inr objs, cache, c)
      | g # gs \<Rightarrow>
          (case start_first start g sig objs \<lparr>refs = cache, inflight = [], outcomes = []\<rparr> c of
             (Inl err, p1, c1) \<Rightarrow> (Inl err, refs p1, c1)
           | (Inr wss, p1, c1) \<Rightarrow>
               (case finish_each start (opt_graph opts) sig gs (zip objs wss) p1 c1 of
                  (r, p2, c2) \<Rightarrow> (r, refs p2, c2))))"

section \<open>request\<close>

text \<open>The first argument of \<^verbatim>\<open>request\<close>: a string (or \<^verbatim>\<open>URL\<close>), or an object of options.\<close>

datatype request_arg = Url string | Options request_options

text \<open>What the synchronous part of \<^verbatim>\<open>request\<close> leaves for its promise chain: the absolute
  url, the options as sent, the object \<^verbatim>\<open>options\<close> and the outcome of the transport call.\<close>

record sent =
  sent_url :: string
  sent_options :: request_options
  sent_fhir :: options
  sent_response :: "error + jsval"

text \<open>
  \<^verbatim>\<open>request\<close> up to and including the call of the transport. An empty url string is falsy
  and is refused. The call of the transport is noted in \<open>net\<close>.
\<close>

definition request_start :: "env \<Rightarrow> request_arg \<Rightarrow> fhir_options \<Rightarrow> client \<Rightarrow> (error + sent) \<times> client" where
  "request_start e requestOptions fhirOptions c =
     (if requestOptions = Url []
      then (Inl (Error ''request requires an url or request options as argument''), c)
      else
        let (u0, ro0) = (case requestOptions of
                           Url x \<Rightarrow> (x, no_options)
                         | Options ro \<Rightarrow> ((case url ro of None \<Rightarrow> ''undefined'' | Some x \<Rightarrow> x), ro));
            u = absolute e u0 (serverUrl (state c));
            ro1 = (case getAuthorizationHeader e (state c) of
                     None \<Rightarrow> ro0
                   | Some authHeader \<Rightarrow>
                       if authHeader = [] then ro0
                       else ro0\<lparr>headers := AList.update ''Authorization'' authHeader (headers ro0)\<rparr>);
            opts = make_options fhirOptions
        in (Inr \<lparr>sent_url = u, sent_options = ro1, sent_fhir = opts,
                  sent_response = lib_request e u ro1\<rparr>,
            c\<lparr>net := net c @ [(u, ro1)], diag := diag c @ [u]\<rparr>))"

text \<open>
  The recursive \<^verbatim>\<open>this.request(requestOptions, fhirOptions, _resolvedRefs)\<close>, awaited: it
  answers with the outcome, with the cache object as the call leaves it, and with the client.
\<close>

type_synonym requester =
  "request_arg \<Rightarrow> fhir_options \<Rightarrow> cache \<Rightarrow> client \<Rightarrow> (error + jsval) \<times> cache \<times> client"

text \<open>
  The first \<^verbatim>\<open>catch\<close>: "Automatic re-auth via refresh token". On a 401, with
  \<^verbatim>\<open>useRefreshToken\<close> and a refresh token in the state, \<^verbatim>\<open>refresh\<close> is called and awaited
  (the exchange in the slot settles with the answer of the transport), and then the request
  is made again through \<^verbatim>\<open>this.request\<close>, with the absolute url, the object \<^verbatim>\<open>options\<close> and
  the same cache. Any other error is thrown on.
\<close>

definition catch_refresh ::
  "env \<Rightarrow> requester \<Rightarrow> sent \<Rightarrow> cache \<Rightarrow> error \<Rightarrow> client \<Rightarrow> (error + jsval) \<times> cache \<times> client" where
  "catch_refresh e self s cache err c0 =
     (let c = c0\<lparr>diag := diag c0 @ [''request failed'']\<rparr> in
      if status err = Some 401 \<and> opt_useRefreshToken (sent_fhir s)
         \<and> truthy (token_field (state c) ''refresh_token'')
      then
        (case refresh e (no_options\<lparr>signal := signal (sent_options s)\<rparr>) c of
           (Inl thrown, c1) \<Rightarrow> (Inl thrown, cache, c1)
         | (Inr t, c1) \<Rightarrow>
             (case refresh_settle t (lib_request e (task_uri t) (task_options t)) c1 of
                (Inl rejected, c2) \<Rightarrow> (Inl rejected, cache, c2)
              | (Inr st, c2) \<Rightarrow>
                  self (Options ((sent_options s)\<lparr>url := Some (sent_url s)\<rparr>))
                       (as_fhir_options (sent_fhir s)) cache c2))
      else (Inl err, cache, c))"

text \<open>Modelled from the spec: the message \<^verbatim>\<open>str.expired\<close> of the module \<^verbatim>\<open>./strings\<close>,
  which is not part of the sources; it words the "session expired" condition.\<close>

definition str_expired :: string where
  "str_expired = ''Session expired! Please re-launch the app''"

text \<open>The second \<^verbatim>\<open>catch\<close>: "Handle 401".\<close>

definition catch_401 :: "env \<Rightarrow> options \<Rightarrow> error \<Rightarrow> client \<Rightarrow> error \<times> client" where
  "catch_401 e opts err c =
     (if status err = Some 401 then
        if \<not> truthy (token_field (state c) ''access_token'')
        then (Error ''This app cannot be accessed directly. Please launch it as SMART app!'', c)
        else if \<not> opt_useRefreshToken opts
        then (Error str_expired,
              clearState e (c\<lparr>diag := diag c @ [''Your session has expired and the useRefreshToken option is set to false. Please re-launch the app.'']\<rparr>))
        else (Error str_expired,
              clearState e (c\<lparr>diag := diag c @ [''Auto-refresh failed! Please re-launch the app.'']\<rparr>))
      else (err, c))"

text \<open>The third \<^verbatim>\<open>catch\<close>: "Handle 403".\<close>

definition catch_403 :: "error \<Rightarrow> client \<Rightarrow> error \<times> client" where
  "catch_403 err c =
     (if status err = Some 403
      then (err, c\<lparr>diag := diag c @ [''Permission denied! Please make sure that you have requested the proper scopes.'']\<rparr>)
      else (err, c))"

text \<open>\<^verbatim>\<open>(_data.entry || [])\<close> as the array that \<^verbatim>\<open>map\<close> is called on.\<close>

definition entries_of :: "jsval \<Rightarrow> error + jsval list" where
  "entries_of data =
     (let entry = get_prop data ''entry'' in
      if \<not> truthy entry then Inr []
      else (case entry of
              Arr items \<Rightarrow> Inr items
            | _ \<Rightarrow> Inl (TypeError ''(_data.entry || []).map is not a function'')))"

text \<open>\<^verbatim>\<open>item.resource\<close> for every entry; it throws on an entry that is \<^verbatim>\<open>null\<close>.\<close>

definition resources_of :: "jsval list \<Rightarrow> error + jsval list" where
  "resources_of items =
     (if Null \<in> set items \<or> Undefined \<in> set items
      then Inl (TypeError ''Cannot read properties of null (reading resource)'')
      else Inr (map (\<lambda>item. get_prop item ''resource'') items))"

text \<open>The resources of the entries are resolved in place; on trees, the resolved resources
  are put back into their entries.\<close>

definition put_resources :: "jsval \<Rightarrow> jsval list \<Rightarrow> jsval list \<Rightarrow> jsval" where
  "put_resources data items objs =
     (if items = [] then data
      else set_prop data ''entry''
             (Arr (map (\<lambda>(item, obj). if get_prop item ''resource'' = obj then item
                                       else set_prop item ''resource'' obj) (zip items objs))))"

text \<open>"Resolve References": the asynchronous function applied to the data.\<close>

definition resolve_stage ::
  "starter \<Rightarrow> options \<Rightarrow> nat option \<Rightarrow> cache \<Rightarrow> jsval \<Rightarrow> client \<Rightarrow> (error + jsval) \<times> cache \<times> client" where
  "resolve_stage start opts sig cache data c =
     (if loose_eq_str (get_prop data ''resourceType'') ''Bundle'' then
        (case entries_of data of
           Inl err \<Rightarrow> (Inl err, cache, c)
         | Inr items \<Rightarrow>
             (case resources_of items of
                Inl err \<Rightarrow> (Inl err, cache, c)
              | Inr objs \<Rightarrow>
                  (case resolveRefs start opts sig objs cache c of
                     (Inl err, cache1, c1) \<Rightarrow> (Inl err, cache1, c1)
                   | (Inr objs1, cache1, c1) \<Rightarrow> (Inr (put_resources data items objs1), cache1, c1))))
      else
        (case resolveRefs start opts sig [data] cache c of
           (Inl err, cache1, c1) \<Rightarrow> (Inl err, cache1, c1)
         | (Inr objs1, cache1, c1) \<Rightarrow> (Inr (case objs1 of [] \<Rightarrow> data | d # ds \<Rightarrow> d), cache1, c1)))"

text \<open>\<^verbatim>\<open>links.find(l => l.relation == "next")\<close> on \<^verbatim>\<open>_data.link || []\<close>.\<close>

definition find_next :: "jsval \<Rightarrow> error + jsval" where
  "find_next data =
     (let link = get_prop data ''link'' in
      if \<not> truthy link then Inr Undefined
      else (case link of
              Arr links \<Rightarrow>
                (case find (\<lambda>l. l = Null \<or> l = Undefined \<or> loose_eq_str (get_prop l ''relation'') ''next'') links of
                   None \<Rightarrow> Inr Undefined
                 | Some l \<Rightarrow> if l = Null \<or> l = Undefined
                             then Inl (TypeError ''Cannot read properties of null (reading relation)'')
                             else Inr l)
            | _ \<Rightarrow> Inl (TypeError ''links.find is not a function'')))"

text \<open>The working payload of a page: with \<^verbatim>\<open>flat\<close>, the array of the resources of the
  entries.\<close>

definition page_payload :: "options \<Rightarrow> jsval \<Rightarrow> error + jsval" where
  "page_payload opts data =
     (if opt_flat opts
      then (case entries_of data of
              Inl err \<Rightarrow> Inl err
            | Inr items \<Rightarrow>
                (case resources_of items of Inl err \<Rightarrow> Inl err | Inr objs \<Rightarrow> Inr (Arr objs)))
      else Inr data)"

text \<open>
  "Pagination". The page budget \<^verbatim>\<open>options.pageLimit\<close> is decremented in the object
  \<^verbatim>\<open>options\<close>, and that object, with the decremented budget, is what the recursive call for
  the next page receives.
\<close>

definition paginate ::
  "requester \<Rightarrow> options \<Rightarrow> nat option \<Rightarrow> cache \<Rightarrow> jsval \<Rightarrow> client \<Rightarrow> (error + jsval) \<times> cache \<times> client" where
  "paginate self opts sig cache data c =
     (if truthy data \<and> loose_eq_str (get_prop data ''resourceType'') ''Bundle'' then
        (case page_payload opts data of
           Inl err \<Rightarrow> (Inl err, cache, c)
         | Inr d1 \<Rightarrow>
             (case (case opt_onPage opts of
                      None \<Rightarrow> (None, c)
                    | Some f \<Rightarrow> (f d1 (Obj cache), c\<lparr>pages := pages c @ [(d1, cache)]\<rparr>)) of
                (Some thrown, c1) \<Rightarrow> (Inl thrown, cache, c1)
              | (None, c1) \<Rightarrow>
                  let opts1 = opts\<lparr>opt_pageLimit := opt_pageLimit opts - 1\<rparr> in
                  if opt_pageLimit opts1 \<noteq> 0 then
                    (case find_next data of
                       Inl err \<Rightarrow> (Inl err, cache, c1)
                     | Inr next \<Rightarrow>
                         let d2 = makeArray d1 in
                         if truthy next \<and> truthy (get_prop next ''url'') then
                           (case self (Options (no_options\<lparr>url := Some (js_string (get_prop next ''url'')),
                                                            signal := sig\<rparr>))
                                      (as_fhir_options opts1) cache c1 of
                              (Inl err, cache2, c2) \<Rightarrow> (Inl err, cache2, c2)
                            | (Inr nextPage, cache2, c2) \<Rightarrow>
                                if opt_onPage opts1 \<noteq> None then (Inr Null, cache2, c2)
                                else if opt_resolveReferences opts1 \<noteq> [] then
                                  if nextPage = Null \<or> nextPage = Undefined
                                  then (Inl (TypeError ''Cannot read properties of null (reading references)''), cache2, c2)
                                  else
                                    let d = get_prop nextPage ''data'' in
                                    (Inr (Arr (d2 @ makeArray (if truthy d then d else nextPage))),
                                     object_assign cache2 (own_entries (get_prop nextPage ''references'')),
                                     c2)
                                else (Inr (Arr (d2 @ makeArray nextPage)), cache2, c2))
                         else (Inr (Arr d2), cache, c1))
                  else (Inr d1, cache, c1)))
      else (Inr data, cache, c))"

text \<open>
  "Finalize". The first component is what the call resolves to, the second is the value of
  the variable \<^verbatim>\<open>_resolvedRefs\<close> afterwards.
\<close>

definition finalize :: "options \<Rightarrow> cache \<Rightarrow> jsval \<Rightarrow> jsval \<times> cache" where
  "finalize opts cache data =
     (if opt_graph opts then (data, [])
      else if opt_onPage opts = None \<and> opt_resolveReferences opts \<noteq> []
      then (Obj [(''data'', data), (''references'', Obj cache)], cache)
      else (data, cache))"

text \<open>The last \<^verbatim>\<open>then\<close> of the chain: raw responses pass, everything else is resolved,
  paginated and finalized.\<close>

fun is_raw :: "jsval \<Rightarrow> bool" where
  "is_raw (Str x) = True"
| "is_raw (Response x) = True"
| "is_raw v = (\<not> truthy v)"

definition then_data ::
  "requester \<Rightarrow> starter \<Rightarrow> sent \<Rightarrow> cache \<Rightarrow> jsval \<Rightarrow> client \<Rightarrow> (error + jsval) \<times> cache \<times> client" where
  "then_data self start s cache data c =
     (if is_raw data then (Inr data, cache, c)
      else
        let opts = sent_fhir s; sig = signal (sent_options s) in
        case resolve_stage start opts sig cache data c of
          (Inl err, cache1, c1) \<Rightarrow> (Inl err, cache1, c1)
        | (Inr d1, cache1, c1) \<Rightarrow>
            (case paginate self opts sig cache1 d1 c1 of
               (Inl err, cache2, c2) \<Rightarrow> (Inl err, cache2, c2)
             | (Inr d2, cache2, c2) \<Rightarrow> (Inr (fst (finalize opts cache2 d2)), cache2, c2)))"

text \<open>
  The promise chain of \<^verbatim>\<open>request\<close>, from the outcome of the transport call to the outcome
  of the call: the three \<^verbatim>\<open>catch\<close> in their order, then the \<^verbatim>\<open>then\<close>, which also receives
  what the first \<^verbatim>\<open>catch\<close> recovered.
\<close>

definition request_chain ::
  "env \<Rightarrow> requester \<Rightarrow> starter \<Rightarrow> sent \<Rightarrow> cache \<Rightarrow> client \<Rightarrow> (error + jsval) \<times> cache \<times> client" where
  "request_chain e self start s cache c =
     (case (case sent_response s of
              Inr data \<Rightarrow> (Inr data, cache, c)
            | Inl err \<Rightarrow> catch_refresh e self s cache err c) of
        (Inl err1, cache1, c1) \<Rightarrow>
          (let (err2, c2) = catch_401 e (sent_fhir s) err1 c1;
               (err3, c3) = catch_403 err2 c2
           in (Inl err3, cache1, c3))
      | (Inr data, cache1, c1) \<Rightarrow> then_data self start s cache1 data c1)"

text \<open>
  The promise chain with a budget for the depth of the recursive calls of \<^verbatim>\<open>request\<close> (the
  retry after a refresh, the next page, the fetch of a reference). With the budget used up
  the call has not settled.
\<close>

definition run_request :: "(sent \<Rightarrow> cache \<Rightarrow> client \<Rightarrow> (error + jsval) \<times> cache \<times> client) \<Rightarrow> env \<Rightarrow> requester" where
  "run_request fin e requestOptions fhirOptions cache c =
     (case request_start e requestOptions fhirOptions c of
        (Inl err, c1) \<Rightarrow> (Inl err, cache, c1)
      | (Inr s, c1) \<Rightarrow> fin s cache c1)"

definition start_request :: "(sent \<Rightarrow> cache \<Rightarrow> client \<Rightarrow> (error + jsval) \<times> cache \<times> client) \<Rightarrow> env \<Rightarrow> starter" where
  "start_request fin e ro c =
     (case request_start e (Options ro) default_fhir_options c of
        (Inl err, c1) \<Rightarrow> (\<lambda>c'. (Inl err, c'), c1)
      | (Inr s, c1) \<Rightarrow> (\<lambda>c'. case fin s [] c' of (r, cache1, c'') \<Rightarrow> (r, c''), c1))"

primrec request_finish :: "nat \<Rightarrow> env \<Rightarrow> sent \<Rightarrow> cache \<Rightarrow> client \<Rightarrow> (error + jsval) \<times> cache \<times> client" where
  "request_finish 0 e = (\<lambda>s cache c. (Inl Unsettled, cache, c))"
| "request_finish (Suc n) e =
     request_chain e (run_request (request_finish n e) e) (start_request (request_finish n e) e)"

text \<open>\<^verbatim>\<open>Client.request\<close>, awaited.\<close>

definition request :: "nat \<Rightarrow> env \<Rightarrow> requester" where
  "request n e = run_request (request_finish n e) e"

section \<open>Well-formed pages\<close>

text \<open>A Bundle as a server sends it: an object whose \<^verbatim>\<open>resourceType\<close> is "Bundle" and whose
  \<^verbatim>\<open>entry\<close>, when present, is an array without \<^verbatim>\<open>null\<close>.\<close>

definition well_formed_bundle :: "jsval \<Rightarrow> bool" where
  "well_formed_bundle b =
     (case b of
        Obj kv \<Rightarrow>
          loose_eq_str (get_prop b ''resourceType'') ''Bundle''
          \<and> (case entries_of b of
                Inl err \<Rightarrow> False
              | Inr items \<Rightarrow> (case resources_of items of Inl err \<Rightarrow> False | Inr objs \<Rightarrow> True))
      | _ \<Rightarrow> False)"

section \<open>Concurrent callers\<close>


section \<open>An example server\<close>

text \<open>
  A small world on which the theorems are exercised: a FHIR server at \<^verbatim>\<open>http://s\<close> and a
  token endpoint at \<^verbatim>\<open>http://auth/token\<close>. The server knows three observations, one
  patient, a text and a chain of three pages; \<^verbatim>\<open>secret\<close> asks for the access token \<^verbatim>\<open>a2\<close>, which the token
  endpoint hands out at the second exchange; \<^verbatim>\<open>locked\<close> always answers 401.
\<close>

definition example_absolute :: "string \<Rightarrow> string \<Rightarrow> string" where
  "example_absolute u base = (if take 4 u = ''http'' then u else base @ ''/'' @ u)"

definition patient1 :: jsval where
  "patient1 = Obj [(''resourceType'', Str ''Patient''), (''id'', Str ''1'')]"

definition observation :: "string \<Rightarrow> string \<Rightarrow> jsval" where
  "observation i ref =
     Obj [(''resourceType'', Str ''Observation''), (''id'', Str i),
          (''subject'', Obj [(''reference'', Str ref)])]"

definition page_bundle :: "jsval list \<Rightarrow> string \<Rightarrow> jsval" where
  "page_bundle resources next =
     Obj [(''resourceType'', Str ''Bundle''),
          (''entry'', Arr (map (\<lambda>r. Obj [(''resource'', r)]) resources)),
          (''link'', Arr [Obj [(''relation'', Str ''next''), (''url'', Str next)]])]"

definition example_page1 :: jsval where
  "example_page1 =
     page_bundle [observation ''1'' ''Patient/1'', observation ''2'' ''Patient/1''] ''http://s/page2''"

definition example_page2 :: jsval where
  "example_page2 = page_bundle [observation ''4'' ''Patient/1''] ''http://s/page3''"

definition example_token_endpoint :: "request_options \<Rightarrow> error + jsval" where
  "example_token_endpoint ro =
     (if body ro = Some ''grant_type=refresh_token&refresh_token=r0''
      then Inr (Obj [(''access_token'', Str ''a1''), (''refresh_token'', Str ''r1'')])
      else if body ro = Some ''grant_type=refresh_token&refresh_token=r1''
      then Inr (Obj [(''access_token'', Str ''a2''), (''refresh_token'', Str ''r2'')])
      else Inl (HttpError 400))"

definition example_server :: "string \<Rightarrow> request_options \<Rightarrow> error + jsval" where
  "example_server u ro =
     (if u = ''http://auth/token'' then example_token_endpoint ro
      else if u = ''http://s/Observation/1'' then Inr (observation ''1'' ''Patient/1'')
      else if u = ''http://s/Observation/2'' then Inr (observation ''2'' ''Patient/404'')
      else if u = ''http://s/Observation/3'' then Inr (observation ''3'' ''Patient/500'')
      else if u = ''http://s/Patient/1'' then Inr patient1
      else if u = ''http://s/Patient/404'' then Inl (HttpError 404)
      else if u = ''http://s/page1''
      then Inr example_page1
      else if u = ''http://s/page2'' then Inr example_page2
      else if u = ''http://s/page3'' then Inr (page_bundle [] [])
      else if u = ''http://s/note'' then Inr (Str ''hello'')
      else if u = ''http://s/secret''
      then (if map_of (headers ro) ''Authorization'' = Some ''Bearer a2''
            then Inr patient1 else Inl (HttpError 401))
      else if u = ''http://s/locked'' then Inl (HttpError 401)
      else Inl (HttpError 500))"

definition example_env :: env where
  "example_env =
     \<lparr>lib_request = example_server, absolute = example_absolute, btoa = (\<lambda>x. x),
      encodeURIComponent = (\<lambda>x. x), SMART_KEY = ''SMART_KEY''\<rparr>"

definition example_state :: client_state where
  "example_state =
     \<lparr>serverUrl = ''http://s'', tokenUri = Some ''http://auth/token'', key = Some ''k1'',
      username = None, password = None,
      tokenResponse = [(''access_token'', Str ''a0''), (''refresh_token'', Str ''r0''),
                       (''scope'', Str ''launch offline_access'')]\<rparr>"

definition example_client :: client where
  "example_client =
     \<lparr>state = example_state, refreshTask = None,
      storage = [(''SMART_KEY'', StoredKey ''k1''), (''k1'', StoredState example_state)],
      net = [], diag = [], pages = [], settled = [], next_id = 0\<rparr>"

text \<open>The same client before any authorization: no token response, nothing stored.\<close>

definition example_unauthorized :: client where
  "example_unauthorized =
     example_client\<lparr>state := example_state\<lparr>tokenResponse := []\<rparr>, storage := []\<rparr>"





text \<open>The options sent by a client whose access token is \<open>token\<close>.\<close>

definition bearer :: "string \<Rightarrow> request_options \<Rightarrow> request_options" where
  "bearer token ro = ro\<lparr>headers := AList.update ''Authorization'' (''Bearer '' @ token) (headers ro)\<rparr>"

text \<open>The example client after it has sent a request for \<open>u\<close> with the options \<open>ro\<close>.\<close>

definition example_sent :: "string \<Rightarrow> request_options \<Rightarrow> client \<Rightarrow> client" where
  "example_sent u ro c = c\<lparr>net := net c @ [(u, ro)], diag := diag c @ [u]\<rparr>"

text \<open>Options with a budget of two pages.\<close>

definition two_pages_options :: fhir_options where
  "two_pages_options = default_fhir_options\<lparr>pageLimit := Some 2\<rparr>"




text \<open>Options that ask for the subject to be spliced into the resource.\<close>

definition resolve_options :: fhir_options where
  "resolve_options = default_fhir_options\<lparr>resolveReferences := [''subject'']\<rparr>"

section \<open>Properties\<close>

subsection \<open>Order of the depth groups\<close>

text \<open>
  The decimal numerals of the numbers below ten are single digits, and as strings they are
  ordered as the numbers are. So, as long as every path has fewer than ten segments, sorting
  the keys as strings changes nothing and the groups run in ascending depth order.
\<close>

lemma of_char_digits: "\<forall>n<10. (of_char (digit n) :: nat) = 48 + n"
  unfolding digit_def by (simp add: eval_nat_numeral All_less_Suc)

lemma of_char_digit: "n < 10 \<Longrightarrow> (of_char (digit n) :: nat) = 48 + n"
  using of_char_digits by blast

lemma digit_eq: "a < 10 \<Longrightarrow> b < 10 \<Longrightarrow> (digit a = digit b) = (a = b)"
  using of_char_digit [of a] of_char_digit [of b] by (metis add_left_cancel)

lemma digit_less: "a < 10 \<Longrightarrow> b < 10 \<Longrightarrow> (digit a < digit b) = (a < b)"
  by (simp add: less_char_def of_char_digit)

lemma show_nat_digit: "n < 10 \<Longrightarrow> show_nat n = [digit n]"
  by (simp add: show_nat.simps)

lemma show_nat_le: "a < 10 \<Longrightarrow> b < 10 \<Longrightarrow> (show_nat a \<le> show_nat b) = (a \<le> b)"
  by (auto simp: show_nat_digit digit_eq digit_less)

lemma show_nat_inj: "a < 10 \<Longrightarrow> b < 10 \<Longrightarrow> (show_nat a = show_nat b) = (a = b)"
  by (simp add: show_nat_digit digit_eq)

lemma sorted_show_nat:
  "sorted ks \<Longrightarrow> \<forall>k \<in> set ks. k < 10 \<Longrightarrow> sorted (map show_nat ks)"
  by (induction ks) (auto simp: show_nat_le)

lemma js_sort_keys:
  "\<forall>k \<in> set ks. k < 10 \<Longrightarrow> js_sort (map show_nat (sort ks)) = map show_nat (sort ks)"
  by (simp add: js_sort_def sorted_sort_id sorted_show_nat)

lemma grouped_push:
  assumes "grouped paths groups"
  shows "grouped (path # paths) (push_group path groups)"
proof (cases "map_of groups (depth path)")
  case None
  then have "depth path \<notin> fst ` set groups"
    by (simp add: map_of_eq_None_iff)
  then show ?thesis
    using assms None
    by (auto simp: grouped_def push_group_def Let_def map_add_def split: option.splits)
next
  case (Some g)
  then have "depth path \<in> fst ` set groups"
    by (metis map_of_eq_None_iff option.distinct(1))
  then have "fst ` set (AList.update (depth path) (g @ [path]) groups) = fst ` set groups"
    by (metis update_keys list.set_map)
  then show ?thesis
    using assms Some
    by (auto simp: grouped_def push_group_def Let_def update_conv' distinct_update)
qed

lemma grouped_fold:
  "grouped seen groups \<Longrightarrow> grouped (rev paths @ seen) (fold push_group paths groups)"
proof (induction paths arbitrary: seen groups)
  case Nil
  then show ?case by simp
next
  case (Cons p ps)
  show ?case
    using Cons.IH [OF grouped_push [OF Cons.prems, of p]] by simp
qed

lemma grouped_make_groups: "grouped (rev paths) (make_groups paths)"
  using grouped_fold [of "[]" "[]" paths] by (simp add: make_groups_def grouped_def)

lemma group_of_key_found:
  assumes g: "grouped paths groups" and small: "\<forall>p \<in> set paths. depth p < 10"
    and k: "k \<in> fst ` set groups"
  shows "\<exists>p ps. group_of_key groups (show_nat k) = p # ps \<and> depth p = k"
proof -
  have keys: "\<forall>(len, x) \<in> set groups. len < 10"
    using g small by (fastforce simp: grouped_def)
  then have k10: "k < 10" using k by auto
  obtain len x where f: "find (\<lambda>(len, x). show_nat len = show_nat k) groups = Some (len, x)"
    using k by (cases "find (\<lambda>(len, x). show_nat len = show_nat k) groups") (auto simp: find_None_iff)
  then have m: "(len, x) \<in> set groups" "show_nat len = show_nat k"
    by (auto simp: find_Some_iff dest: nth_mem)
  then have "len = k" using keys k10 show_nat_inj [of len k] by auto
  moreover have "map_of groups len = Some x"
    using m(1) g by (simp add: grouped_def)
  ultimately have "x \<noteq> [] \<and> (\<forall>p \<in> set x. depth p = k)"
    using g by (simp add: grouped_def)
  then show ?thesis
    using f by (cases x) (auto simp: group_of_key_def)
qed

lemma depth_order_ascending_below_ten:
  assumes "\<forall>p \<in> set (remove_duplicates (sanitize given)). depth p < 10"
  shows "depth_order given
           = sort (map fst (make_groups (remove_duplicates (sanitize given))))
         \<and> sorted (depth_order given)"
proof -
  let ?paths = "remove_duplicates (sanitize given)"
  let ?groups = "make_groups ?paths"
  have g: "grouped (rev ?paths) ?groups" by (rule grouped_make_groups)
  have small: "\<forall>p \<in> set (rev ?paths). depth p < 10" using assms by simp
  have keys: "\<forall>k \<in> set (map fst ?groups). k < 10"
    using g small by (fastforce simp: grouped_def)
  have order: "js_sort (object_keys ?groups) = map show_nat (sort (map fst ?groups))"
    using js_sort_keys [OF keys] by (simp add: object_keys_def)
  have each: "(case group_of_key ?groups (show_nat k) of [] \<Rightarrow> 0 | p # ps \<Rightarrow> depth p) = k"
    if "k \<in> set (sort (map fst ?groups))" for k
    using group_of_key_found [OF g small, of k] that by auto
  have "depth_order given = map (\<lambda>k. k) (sort (map fst ?groups))"
    unfolding depth_order_def execution_order_def Let_def order map_map
    by (rule map_cong) (simp_all add: each)
  then show ?thesis by simp
qed

text \<open>
  C5. The claim: \<^verbatim>\<open>resolveRefs\<close> processes the depth groups in ascending depth order for every
  set of sanitized paths, including sets with paths of ten or more segments. The keys of
  \<^verbatim>\<open>groups\<close> are sorted by \<^verbatim>\<open>sort()\<close> without a comparator, that is as strings, and the
  string "10" precedes the string "2": for the two paths below, of depth 2 and depth 10, the
  group of depth 10 is processed first, against the comment of step 4 ("child refs are looked
  up after their parents").
\<close>

theorem resolveRefs_depth_order_ten_before_two:
  "depth_order [''a.b'', ''a.b.c.d.e.f.g.h.i.j''] = [10, 2]
   \<and> execution_order [''a.b'', ''a.b.c.d.e.f.g.h.i.j'']
       = [(''10'', [''a.b.c.d.e.f.g.h.i.j'']), (''2'', [''a.b''])]
   \<and> \<not> sorted (depth_order [''a.b'', ''a.b.c.d.e.f.g.h.i.j''])"
  by code_simp

subsection \<open>The single-flight refresh\<close>









subsection \<open>Persisting the state when the exchange settles\<close>

lemma refresh_then_keeps:
  "key (state (snd (refresh_then r c))) = key (state c)"
  "storage (snd (refresh_then r c)) = storage c"
  by (simp_all add: refresh_then_def Let_def split: sum.splits)

lemma refresh_then_rejects:
  "fst (refresh_then (Inl err) c) = Inl err"
  "\<not> truthy (token_field (state (snd (refresh_then (Inl err) c))) ''refresh_token'')"
  by (simp_all add: refresh_then_def check_access_token_def token_field_def delete_conv')

lemma refresh_finally_state:
  "refreshTask (refresh_finally c) = None"
  "state (refresh_finally c) = state c"
  by (simp_all add: refresh_finally_def Let_def)

lemma refresh_finally_stores:
  "truthy_string (key (state c)) \<Longrightarrow>
     map_of (storage (refresh_finally c)) (the (key (state c))) = Some (StoredState (state c))"
  "\<not> truthy_string (key (state c)) \<Longrightarrow>
     storage (refresh_finally c) = storage c
     \<and> last (diag (refresh_finally c)) = ''No key found in Clint.state. Cannot persist the instance.''"
  by (simp_all add: refresh_finally_def Let_def update_conv')

lemma refresh_settle_steps:
  "fst (refresh_settle t r c) = fst (refresh_then r c)"
  "refreshTask (snd (refresh_settle t r c)) = None"
  "state (snd (refresh_settle t r c)) = state (snd (refresh_then r c))"
  "storage (snd (refresh_settle t r c)) = storage (refresh_finally (snd (refresh_then r c)))"
  "diag (snd (refresh_settle t r c)) = diag (refresh_finally (snd (refresh_then r c)))"
  by (simp_all add: refresh_settle_def Let_def case_prod_beta refresh_finally_state)

text \<open>
  C10. The \<^verbatim>\<open>finally\<close> of \<^verbatim>\<open>refresh\<close> runs for every outcome \<open>r\<close> of the exchange, a failure
  as well as a success. In that one step the slot is emptied and, when the state has a key,
  the state as the handlers have left it is stored under that key; without a key the storage
  is untouched and only the diagnostic is written. For a failed exchange \<open>Inl err\<close> the promise
  rejects with \<open>err\<close> and the state that is stored has lost its refresh token.
\<close>

theorem refresh_persists_on_every_outcome:
  "refreshTask (snd (refresh_settle t r c)) = None
   \<and> key (state (snd (refresh_settle t r c))) = key (state c)
   \<and> (if truthy_string (key (state c))
      then map_of (storage (snd (refresh_settle t r c))) (the (key (state c)))
             = Some (StoredState (state (snd (refresh_settle t r c))))
      else storage (snd (refresh_settle t r c)) = storage c
           \<and> last (diag (snd (refresh_settle t r c)))
               = ''No key found in Clint.state. Cannot persist the instance.'')
   \<and> fst (refresh_settle t (Inl err) c) = Inl err
   \<and> \<not> truthy (token_field (state (snd (refresh_settle t (Inl err) c))) ''refresh_token'')"
proof -
  let ?c1 = "snd (refresh_then r c)"
  have k: "key (state ?c1) = key (state c)" by (rule refresh_then_keeps)
  have stored: "truthy_string (key (state c)) \<Longrightarrow>
      map_of (storage (refresh_finally ?c1)) (the (key (state c))) = Some (StoredState (state ?c1))"
    using refresh_finally_stores(1) [of ?c1] by (simp add: k)
  have skipped: "\<not> truthy_string (key (state c)) \<Longrightarrow>
      storage (refresh_finally ?c1) = storage c
      \<and> last (diag (refresh_finally ?c1)) = ''No key found in Clint.state. Cannot persist the instance.''"
    using refresh_finally_stores(2) [of ?c1] by (simp add: k refresh_then_keeps)
  show ?thesis
    using stored skipped
    by (simp add: refresh_settle_steps k refresh_then_rejects)
qed

subsection \<open>The terminal 401\<close>

text \<open>
  C9. An error with status 401 that reaches the second \<^verbatim>\<open>catch\<close>: without an access token
  in the state the call fails with the "launch it as SMART app" error and the client is
  unchanged; with an access token the call fails with the "session expired" error, and by
  then \<^verbatim>\<open>tokenResponse\<close> is the empty object and the storage holds nothing under
  \<^verbatim>\<open>SMART_KEY\<close> nor under the key that was stored there.
\<close>

theorem terminal_401:
  assumes "status err = Some 401"
  shows "(\<not> truthy (token_field (state c) ''access_token'') \<longrightarrow>
            catch_401 e opts err c
              = (Error ''This app cannot be accessed directly. Please launch it as SMART app!'', c))
       \<and> (truthy (token_field (state c) ''access_token'') \<longrightarrow>
            fst (catch_401 e opts err c) = Error str_expired
            \<and> tokenResponse (state (snd (catch_401 e opts err c))) = []
            \<and> map_of (storage (snd (catch_401 e opts err c))) (SMART_KEY e) = None
            \<and> (\<forall>k. map_of (storage c) (SMART_KEY e) = Some (StoredKey k) \<longrightarrow> k \<noteq> [] \<longrightarrow>
                   map_of (storage (snd (catch_401 e opts err c))) k = None))"
  using assms
  by (auto simp: catch_401_def Let_def clearState_def delete_conv' split: option.splits stored.splits)

text \<open>On the example server: \<^verbatim>\<open>locked\<close> answers 401. The client that was never authorized
  keeps its state; the authorized client, with \<^verbatim>\<open>useRefreshToken\<close> off, loses its session.\<close>

theorem terminal_401_witness:
  "status (HttpError 401) = Some 401
   \<and> catch_401 example_env (make_options default_fhir_options) (HttpError 401) example_unauthorized
       = (Error ''This app cannot be accessed directly. Please launch it as SMART app!'',
          example_unauthorized)
   \<and> fst (catch_401 example_env (make_options default_fhir_options) (HttpError 401) example_client)
       = Error str_expired
   \<and> tokenResponse (state (snd (catch_401 example_env (make_options default_fhir_options)
                                 (HttpError 401) example_client))) = []
   \<and> map_of (storage (snd (catch_401 example_env (make_options default_fhir_options)
                                 (HttpError 401) example_client))) ''SMART_KEY'' = None
   \<and> map_of (storage (snd (catch_401 example_env (make_options default_fhir_options)
                                 (HttpError 401) example_client))) ''k1'' = None"
proof -
  have h: "status (HttpError 401) = Some 401" by simp
  have a: "\<not> truthy (token_field (state example_unauthorized) ''access_token'')"
    by (simp add: example_unauthorized_def example_client_def example_state_def token_field_def)
  have b: "truthy (token_field (state example_client) ''access_token'')"
    by (simp add: example_client_def example_state_def token_field_def)
  have k: "map_of (storage example_client) (SMART_KEY example_env) = Some (StoredKey ''k1'')"
    by (simp add: example_client_def example_env_def)
  have s: "SMART_KEY example_env = ''SMART_KEY''" by (simp add: example_env_def)
  show ?thesis
    using terminal_401 [OF h, of example_unauthorized example_env "make_options default_fhir_options"]
      terminal_401 [OF h, of example_client example_env "make_options default_fhir_options"] a b k
    by (simp add: s)
qed

subsection \<open>The recursion of request\<close>

lemma request_Suc:
  "request (Suc n) e arg fo cache c =
     (case request_start e arg fo c of
        (Inl err, c1) \<Rightarrow> (Inl err, cache, c1)
      | (Inr s, c1) \<Rightarrow> request_chain e (request n e) (start_request (request_finish n e) e) s cache c1)"
  by (simp add: request_def run_request_def fun_eq_iff split: prod.splits sum.splits)


lemma make_options_as_fhir_options: "make_options (as_fhir_options opts) = opts"
  by (simp add: make_options_def as_fhir_options_def)

lemma request_start_fhir:
  "request_start e arg fo c = (Inr s, c1) \<Longrightarrow> sent_fhir s = make_options fo"
  by (auto simp: request_start_def Let_def split: if_splits prod.splits)

lemma request_start_net:
  "request_start e arg fo c = (Inr s, c1) \<Longrightarrow>
     net c1 = net c @ [(sent_url s, sent_options s)] \<and> pages c1 = pages c \<and> state c1 = state c"
  by (auto simp: request_start_def Let_def split: if_splits prod.splits)

lemma execution_order_Nil: "execution_order [] = []"
  by (simp add: execution_order_def sanitize_def make_groups_def object_keys_def js_sort_def)

lemma resolveRefs_no_paths:
  "opt_resolveReferences opts = [] \<Longrightarrow> resolveRefs start opts sig objs cache c = (Inr objs, cache, c)"
  by (simp add: resolveRefs_def execution_order_Nil)

lemma map_put_same:
  "map (\<lambda>(item, obj). if get_prop item ''resource'' = obj then item else set_prop item ''resource'' obj)
       (zip items (map (\<lambda>item. get_prop item ''resource'') items)) = items"
  by (induction items) auto

lemma put_resources_same:
  assumes "entries_of (Obj kv) = Inr items" "resources_of items = Inr objs"
  shows "put_resources (Obj kv) items objs = Obj kv"
proof (cases "items = []")
  case True
  then show ?thesis by (simp add: put_resources_def)
next
  case False
  have o: "objs = map (\<lambda>item. get_prop item ''resource'') items"
    using assms(2) by (auto simp: resources_of_def split: if_splits)
  have "map_of kv ''entry'' = Some (Arr items)"
    using assms(1) False
    by (auto simp: entries_of_def Let_def split: if_splits option.splits jsval.splits)
  then show ?thesis
    using False by (simp add: put_resources_def o map_put_same update_triv)
qed

lemma resolve_stage_no_paths:
  assumes "opt_resolveReferences opts = []" "well_formed_bundle b"
  shows "resolve_stage start opts sig cache b c = (Inr b, cache, c)"
  using assms
  by (auto simp: resolve_stage_def well_formed_bundle_def resolveRefs_no_paths put_resources_same
      split: jsval.splits sum.splits)

lemma well_formed_bundle_not_raw:
  "well_formed_bundle b \<Longrightarrow> \<not> is_raw b \<and> truthy b \<and> loose_eq_str (get_prop b ''resourceType'') ''Bundle''"
  by (auto simp: well_formed_bundle_def split: jsval.splits)

subsection \<open>The page budget\<close>

lemma one_page:
  assumes st: "request_start e arg fo c = (Inr s, c1)"
    and resp: "sent_response s = Inr b" and wf: "well_formed_bundle b"
    and payload: "page_payload (make_options fo) b = Inr page"
    and opts: "opt_pageLimit (make_options fo) = 1" "onPage fo = None" "resolveReferences fo = []"
  shows "request (Suc n) e arg fo cache c = (Inr (fst (finalize (make_options fo) cache page)), cache, c1)"
proof -
  have o: "sent_fhir s = make_options fo" using request_start_fhir [OF st] .
  have r: "opt_resolveReferences (make_options fo) = []" "opt_onPage (make_options fo) = None"
    using opts by (simp_all add: make_options_def)
  note w = well_formed_bundle_not_raw [OF wf]
  have p: "paginate self (make_options fo) sig cache b c1 = (Inr page, cache, c1)" for self sig
    using w payload opts(1) r by (simp add: paginate_def Let_def)
  show ?thesis
    using w by (simp add: request_Suc st request_chain_def resp then_data_def o
        resolve_stage_no_paths [OF r(1) wf] p)
qed

lemma two_pages:
  assumes st: "request_start e arg fo c = (Inr s1, c1)"
    and resp: "sent_response s1 = Inr b1" and wf: "well_formed_bundle b1"
    and payload: "page_payload (make_options fo) b1 = Inr page1"
    and opts: "opt_pageLimit (make_options fo) = 2" "onPage fo = None" "resolveReferences fo = []"
    and nxt: "find_next b1 = Inr link" "truthy link" "truthy (get_prop link ''url'')"
    and st2: "request_start e
                (Options (no_options\<lparr>url := Some (js_string (get_prop link ''url'')),
                                     signal := signal (sent_options s1)\<rparr>))
                (as_fhir_options ((make_options fo)\<lparr>opt_pageLimit := 1\<rparr>)) c1 = (Inr s2, c2)"
    and resp2: "sent_response s2 = Inr b2" and wf2: "well_formed_bundle b2"
    and payload2: "page_payload (make_options fo) b2 = Inr page2"
  shows "request (Suc (Suc n)) e arg fo cache c
           = (Inr (fst (finalize (make_options fo) cache (Arr (makeArray page1 @ makeArray page2)))), cache, c2)
       \<and> net c2 = net c @ [(sent_url s1, sent_options s1), (sent_url s2, sent_options s2)]"
proof -
  let ?o = "make_options fo"
  let ?o1 = "?o\<lparr>opt_pageLimit := 1\<rparr>"
  have o: "sent_fhir s1 = ?o" using request_start_fhir [OF st] .
  have r: "opt_resolveReferences ?o = []" "opt_onPage ?o = None"
    using opts by (simp_all add: make_options_def)
  have m1: "make_options (as_fhir_options ?o1) = ?o1" by (rule make_options_as_fhir_options)
  have pl: "page_payload ?o1 b2 = Inr page2" using payload2 by (simp add: page_payload_def)
  have f1: "pageLimit (as_fhir_options ?o1) = Some 1" "onPage (as_fhir_options ?o1) = None"
    "resolveReferences (as_fhir_options ?o1) = []"
    using r by (simp_all add: as_fhir_options_def)
  have inner: "request (Suc n) e
                (Options (no_options\<lparr>url := Some (js_string (get_prop link ''url'')),
                                     signal := signal (sent_options s1)\<rparr>))
                (as_fhir_options ?o1) cache c1
               = (Inr (fst (finalize ?o1 cache page2)), cache, c2)"
    using one_page [OF st2 resp2 wf2, of page2 n cache] pl f1 by (simp add: m1)
  have fin: "fst (finalize ?o1 cache page2) = page2"
    using r by (simp add: finalize_def)
  note w = well_formed_bundle_not_raw [OF wf]
  have p: "paginate (request (Suc n) e) ?o (signal (sent_options s1)) cache b1 c1
             = (Inr (Arr (makeArray page1 @ makeArray page2)), cache, c2)"
    using w payload opts(1) r nxt inner fin by (simp add: paginate_def Let_def)
  have res: "request (Suc (Suc n)) e arg fo cache c
           = (Inr (fst (finalize ?o cache (Arr (makeArray page1 @ makeArray page2)))), cache, c2)"
    using w by (simp add: request_Suc [of "Suc n"] st request_chain_def resp then_data_def o
        resolve_stage_no_paths [OF r(1) wf] p)
  show ?thesis
    using res request_start_net [OF st] request_start_net [OF st2] by simp
qed

lemma paginate_budget:
  assumes is_bundle: "truthy data \<and> loose_eq_str (get_prop data ''resourceType'') ''Bundle''"
    and payload: "page_payload opts data = Inr page"
    and no_callback: "opt_onPage opts = None"
  shows "(opt_pageLimit opts = 1 \<longrightarrow> paginate self opts sig cache data c = (Inr page, cache, c))
       \<and> (opt_pageLimit opts = 2 \<longrightarrow> find_next data = Inr link \<longrightarrow>
            truthy link \<and> truthy (get_prop link ''url'') \<longrightarrow>
            paginate self opts sig cache data c =
              (case self (Options (no_options\<lparr>url := Some (js_string (get_prop link ''url'')), signal := sig\<rparr>))
                         (as_fhir_options (opts\<lparr>opt_pageLimit := 1\<rparr>)) cache c of
                 (Inl err, cache2, c2) \<Rightarrow> (Inl err, cache2, c2)
               | (Inr nextPage, cache2, c2) \<Rightarrow>
                   if opt_resolveReferences opts = []
                   then (Inr (Arr (makeArray page @ makeArray nextPage)), cache2, c2)
                   else if nextPage = Null \<or> nextPage = Undefined
                   then (Inl (TypeError ''Cannot read properties of null (reading references)''), cache2, c2)
                   else (Inr (Arr (makeArray page @
                                   makeArray (if truthy (get_prop nextPage ''data'')
                                              then get_prop nextPage ''data'' else nextPage))),
                         object_assign cache2 (own_entries (get_prop nextPage ''references'')), c2))
            \<and> make_options (as_fhir_options (opts\<lparr>opt_pageLimit := 1\<rparr>)) = opts\<lparr>opt_pageLimit := 1\<rparr>)"
  using assms by (auto simp: paginate_def Let_def make_options_as_fhir_options split: prod.splits sum.splits)


text \<open>
  C3. The first transport call of a request answers with a well-formed Bundle \<open>b1\<close> whose
  payload is \<open>page1\<close>, and no \<^verbatim>\<open>onPage\<close> is configured. The budget is decremented and then
  compared with zero. With a budget of 1 the pagination step hands back the page and never
  calls \<^verbatim>\<open>this.request\<close>, whatever the links say: the result does not depend on \<open>self\<close>; and
  (no references to resolve) the whole request makes exactly the one transport call. With a
  budget of 2 and a next link with a url, the pagination step makes one call of
  \<^verbatim>\<open>this.request\<close>, for that url, with the same cache and with the object \<^verbatim>\<open>options\<close>, whose
  budget is now 1 and whose other fields are unchanged, and concatenates what comes back onto
  the array of the current page; and (no references to resolve) when the next page is a
  well-formed Bundle too, the whole request makes exactly two transport calls, whether or
  not the second page has a next link.
\<close>

theorem pagination_budget:
  assumes st: "request_start e arg fo c = (Inr s1, c1)"
    and resp: "sent_response s1 = Inr b1" and wf: "well_formed_bundle b1"
    and payload: "page_payload (make_options fo) b1 = Inr page1"
    and no_callback: "onPage fo = None"
  shows "(opt_pageLimit (make_options fo) = 1 \<longrightarrow>
            paginate self (make_options fo) sig cache0 b1 c0 = (Inr page1, cache0, c0))
       \<and> (opt_pageLimit (make_options fo) = 1 \<longrightarrow> resolveReferences fo = [] \<longrightarrow>
            request (Suc n) e arg fo cache c
              = (Inr (fst (finalize (make_options fo) cache page1)), cache, c1)
            \<and> net c1 = net c @ [(sent_url s1, sent_options s1)])
       \<and> (opt_pageLimit (make_options fo) = 2 \<longrightarrow> find_next b1 = Inr link \<longrightarrow>
            truthy link \<and> truthy (get_prop link ''url'') \<longrightarrow>
            paginate self (make_options fo) sig cache0 b1 c0 =
              (case self (Options (no_options\<lparr>url := Some (js_string (get_prop link ''url'')), signal := sig\<rparr>))
                         (as_fhir_options ((make_options fo)\<lparr>opt_pageLimit := 1\<rparr>)) cache0 c0 of
                 (Inl err, cache2, c2) \<Rightarrow> (Inl err, cache2, c2)
               | (Inr nextPage, cache2, c2) \<Rightarrow>
                   if resolveReferences fo = []
                   then (Inr (Arr (makeArray page1 @ makeArray nextPage)), cache2, c2)
                   else if nextPage = Null \<or> nextPage = Undefined
                   then (Inl (TypeError ''Cannot read properties of null (reading references)''), cache2, c2)
                   else (Inr (Arr (makeArray page1 @
                                   makeArray (if truthy (get_prop nextPage ''data'')
                                              then get_prop nextPage ''data'' else nextPage))),
                         object_assign cache2 (own_entries (get_prop nextPage ''references'')), c2))
            \<and> make_options (as_fhir_options ((make_options fo)\<lparr>opt_pageLimit := 1\<rparr>))
                = (make_options fo)\<lparr>opt_pageLimit := 1\<rparr>)
       \<and> (opt_pageLimit (make_options fo) = 2 \<longrightarrow> resolveReferences fo = [] \<longrightarrow>
            find_next b1 = Inr link \<longrightarrow> truthy link \<and> truthy (get_prop link ''url'') \<longrightarrow>
            request_start e
                (Options (no_options\<lparr>url := Some (js_string (get_prop link ''url'')),
                                     signal := signal (sent_options s1)\<rparr>))
                (as_fhir_options ((make_options fo)\<lparr>opt_pageLimit := 1\<rparr>)) c1 = (Inr s2, c2) \<longrightarrow>
            sent_response s2 = Inr b2 \<longrightarrow> well_formed_bundle b2 \<longrightarrow>
            page_payload (make_options fo) b2 = Inr page2 \<longrightarrow>
            request (Suc (Suc n)) e arg fo cache c
              = (Inr (fst (finalize (make_options fo) cache (Arr (makeArray page1 @ makeArray page2)))),
                 cache, c2)
            \<and> net c2 = net c @ [(sent_url s1, sent_options s1), (sent_url s2, sent_options s2)])"
proof -
  note w = well_formed_bundle_not_raw [OF wf]
  have cb: "opt_onPage (make_options fo) = None"
    using no_callback by (simp add: make_options_def)
  have rr: "opt_resolveReferences (make_options fo) = resolveReferences fo"
    by (simp add: make_options_def)
  have w': "truthy b1 \<and> loose_eq_str (get_prop b1 ''resourceType'') ''Bundle''"
    using w by simp
  note pb = paginate_budget [OF w' payload cb, unfolded rr]
  have one: "opt_pageLimit (make_options fo) = 1 \<Longrightarrow> resolveReferences fo = [] \<Longrightarrow>
      request (Suc n) e arg fo cache c = (Inr (fst (finalize (make_options fo) cache page1)), cache, c1)"
    using one_page [OF st resp wf payload _ no_callback] by simp
  have two: "opt_pageLimit (make_options fo) = 2 \<Longrightarrow> resolveReferences fo = [] \<Longrightarrow>
      find_next b1 = Inr link \<Longrightarrow> truthy link \<and> truthy (get_prop link ''url'') \<Longrightarrow>
      request_start e
                (Options (no_options\<lparr>url := Some (js_string (get_prop link ''url'')),
                                     signal := signal (sent_options s1)\<rparr>))
                (as_fhir_options ((make_options fo)\<lparr>opt_pageLimit := 1\<rparr>)) c1 = (Inr s2, c2) \<Longrightarrow>
      sent_response s2 = Inr b2 \<Longrightarrow> well_formed_bundle b2 \<Longrightarrow>
      page_payload (make_options fo) b2 = Inr page2 \<Longrightarrow>
      request (Suc (Suc n)) e arg fo cache c
              = (Inr (fst (finalize (make_options fo) cache (Arr (makeArray page1 @ makeArray page2)))),
                 cache, c2)
            \<and> net c2 = net c @ [(sent_url s1, sent_options s1), (sent_url s2, sent_options s2)]"
    using two_pages [OF st resp wf payload _ no_callback] by simp
  show ?thesis
    using pb one two request_start_net [OF st] by blast
qed

text \<open>The example server: what the client sends for the first two pages, and the pages.\<close>

lemmas example_defs =
  example_env_def example_client_def example_state_def example_absolute_def example_server_def
  example_sent_def bearer_def no_options_def getAuthorizationHeader_def token_field_def

lemma example_first_page:
  "request_start example_env (Url ''page1'') fo example_client
     = (Inr \<lparr>sent_url = ''http://s/page1'', sent_options = bearer ''a0'' no_options,
              sent_fhir = make_options fo, sent_response = Inr example_page1\<rparr>,
        example_sent ''http://s/page1'' (bearer ''a0'' no_options) example_client)"
  by (simp add: request_start_def example_defs Let_def)

lemma example_second_page:
  "request_start example_env (Options (no_options\<lparr>url := Some ''http://s/page2'', signal := None\<rparr>)) fo
       (example_sent ''http://s/page1'' (bearer ''a0'' no_options) example_client)
     = (Inr \<lparr>sent_url = ''http://s/page2'',
              sent_options = bearer ''a0'' (no_options\<lparr>url := Some ''http://s/page2''\<rparr>),
              sent_fhir = make_options fo, sent_response = Inr example_page2\<rparr>,
        example_sent ''http://s/page2'' (bearer ''a0'' (no_options\<lparr>url := Some ''http://s/page2''\<rparr>))
          (example_sent ''http://s/page1'' (bearer ''a0'' no_options) example_client))"
  by (simp add: request_start_def example_defs Let_def)

lemma example_pages_well_formed:
  "well_formed_bundle example_page1" "well_formed_bundle example_page2"
  by (simp_all add: well_formed_bundle_def example_page1_def example_page2_def page_bundle_def
      entries_of_def resources_of_def)

lemma example_next:
  "find_next example_page1 = Inr (Obj [(''relation'', Str ''next''), (''url'', Str ''http://s/page2'')])"
  by (simp add: find_next_def example_page1_def page_bundle_def)

text \<open>On the example server the chain has three pages. With a budget of 2 the request
  fetches \<^verbatim>\<open>page1\<close> and \<^verbatim>\<open>page2\<close> and answers with the array of the two; with the default
  budget of 1 it fetches \<^verbatim>\<open>page1\<close> alone, whose next link it leaves alone.\<close>

theorem pagination_budget_witness:
  "request 2 example_env (Url ''page1'') two_pages_options [] example_client
     = (Inr (Arr [example_page1, example_page2]), [],
        example_sent ''http://s/page2'' (bearer ''a0'' (no_options\<lparr>url := Some ''http://s/page2''\<rparr>))
          (example_sent ''http://s/page1'' (bearer ''a0'' no_options) example_client))
   \<and> map fst (net (example_sent ''http://s/page2'' (bearer ''a0'' (no_options\<lparr>url := Some ''http://s/page2''\<rparr>))
          (example_sent ''http://s/page1'' (bearer ''a0'' no_options) example_client)))
       = [''http://s/page1'', ''http://s/page2'']
   \<and> request 1 example_env (Url ''page1'') default_fhir_options [] example_client
     = (Inr example_page1, [], example_sent ''http://s/page1'' (bearer ''a0'' no_options) example_client)
   \<and> map fst (net (example_sent ''http://s/page1'' (bearer ''a0'' no_options) example_client))
       = [''http://s/page1'']"
proof -
  let ?link = "Obj [(''relation'', Str ''next''), (''url'', Str ''http://s/page2'')]"
  let ?c1 = "example_sent ''http://s/page1'' (bearer ''a0'' no_options) example_client"
  let ?ro2 = "bearer ''a0'' (no_options\<lparr>url := Some ''http://s/page2''\<rparr>)"
  let ?c2 = "example_sent ''http://s/page2'' ?ro2 ?c1"
  let ?o1 = "as_fhir_options ((make_options two_pages_options)\<lparr>opt_pageLimit := 1\<rparr>)"
  let ?s2 = "\<lparr>sent_url = ''http://s/page2'', sent_options = ?ro2,
             sent_fhir = make_options ?o1, sent_response = Inr example_page2\<rparr>"
  have payload: "page_payload (make_options two_pages_options) example_page1 = Inr example_page1"
    "page_payload (make_options two_pages_options) example_page2 = Inr example_page2"
    "page_payload (make_options default_fhir_options) example_page1 = Inr example_page1"
    by (simp_all add: page_payload_def make_options_def two_pages_options_def default_fhir_options_def)
  have opts: "opt_pageLimit (make_options two_pages_options) = 2" "onPage two_pages_options = None"
    "resolveReferences two_pages_options = []"
    "opt_pageLimit (make_options default_fhir_options) = 1" "onPage default_fhir_options = None"
    "resolveReferences default_fhir_options = []"
    by (simp_all add: make_options_def two_pages_options_def default_fhir_options_def)
  have link: "truthy ?link \<and> truthy (get_prop ?link ''url'')"
    by simp
  have second: "request_start example_env
      (Options (no_options\<lparr>url := Some (js_string (get_prop ?link ''url'')),
         signal := signal (bearer ''a0'' no_options)\<rparr>))
      ?o1 ?c1 = (Inr ?s2, ?c2)"
    using example_second_page [of ?o1] by (simp add: bearer_def no_options_def)
  have fin: "fst (finalize (make_options two_pages_options) [] d) = d"
    "fst (finalize (make_options default_fhir_options) [] d) = d" for d
    by (simp_all add: finalize_def make_options_def two_pages_options_def default_fhir_options_def)
  note two = pagination_budget [OF example_first_page _ example_pages_well_formed(1) payload(1) opts(2),
      where link = ?link and n = 0 and cache = "[]" and ?s2.0 = ?s2 and ?c2.0 = ?c2
        and ?b2.0 = example_page2 and ?page2.0 = example_page2,
      simplified sent.simps, OF refl,
      THEN conjunct2, THEN conjunct2, THEN conjunct2, rule_format,
      OF opts(1) opts(3) example_next link second refl example_pages_well_formed(2) payload(2)]
  note one = pagination_budget [OF example_first_page _ example_pages_well_formed(1) payload(3) opts(5),
      where n = 0 and cache = "[]", simplified sent.simps, OF refl,
      THEN conjunct2, THEN conjunct1, rule_format, OF opts(4) opts(6)]
  have r2: "request 2 example_env (Url ''page1'') two_pages_options [] example_client
     = (Inr (Arr [example_page1, example_page2]), [], ?c2)"
    using two by (simp add: fin numeral_2_eq_2 example_page1_def example_page2_def page_bundle_def)
  have r1: "request 1 example_env (Url ''page1'') default_fhir_options [] example_client
     = (Inr example_page1, [], ?c1)"
    using one by (simp add: fin)
  have n: "map fst (net ?c2) = [''http://s/page1'', ''http://s/page2'']"
    "map fst (net ?c1) = [''http://s/page1'']"
    by (simp_all add: example_sent_def example_client_def)
  show ?thesis
    using r1 r2 n by simp
qed

subsection \<open>Pages handed to a callback\<close>




subsection \<open>The shape of the result\<close>







subsection \<open>Refresh and retry\<close>






subsection \<open>A reference that is missing\<close>

lemma getRef_absent:
  assumes "\<not> truthy (get_prop (Obj (refs p)) refId)"
    and "start (no_options\<lparr>url := Some refId, signal := sig\<rparr>) c = (k, c1)"
  shows "getRef start refId sig p c
           = (Promise (next_id c1),
              p\<lparr>refs := AList.update refId (Promise (next_id c1)) (refs p),
                inflight := inflight p @ [(next_id c1, refId, k)]\<rparr>,
              c1\<lparr>next_id := Suc (next_id c1)\<rparr>)"
  using assms by (simp add: getRef_def Let_def del: get_prop.simps)

lemma failed_fetch:
  assumes "sent_response s = Inl (HttpError code)" "code \<noteq> 401" "code \<noteq> 403"
  shows "request_finish (Suc n) e s cache c
           = (Inl (HttpError code), cache, c\<lparr>diag := diag c @ [''request failed'']\<rparr>)"
  using assms
  by (simp add: request_chain_def catch_refresh_def catch_401_def catch_403_def Let_def)

lemma single_reference:
  assumes st: "request_start e arg fo c = (Inr s, c1)"
    and resp: "sent_response s = Inr data" "\<not> is_raw data"
              "\<not> loose_eq_str (get_prop data ''resourceType'') ''Bundle''"
    and paths: "map snd (execution_order (resolveReferences fo)) = [[path]]"
    and node: "getPath data path = Obj kv" "get_prop (Obj kv) ''reference'' = ref" "truthy ref"
    and absent: "\<not> truthy (get_prop (Obj cache) (js_string ref))"
    and fetch: "request_start e (Options (no_options\<lparr>url := Some (js_string ref),
                                                      signal := signal (sent_options s)\<rparr>))
                  default_fhir_options c1 = (Inr s', c2)"
               "sent_response s' = Inl (HttpError code)" "code \<noteq> 401" "code \<noteq> 403"
  shows "request (Suc (Suc n)) e arg fo cache c =
           (let cache' = AList.delete (js_string ref) cache;
                c' = c2\<lparr>next_id := Suc (next_id c2), diag := diag c2 @ [''request failed'']\<rparr>
            in if code = 404
               then (Inr (fst (finalize (make_options fo) cache' data)), cache', c')
               else (Inl (HttpError code), cache', c'))"
proof -
  let ?o = "make_options fo"
  let ?id = "js_string ref"
  let ?sig = "signal (sent_options s)"
  let ?start = "start_request (request_finish (Suc n) e) e"
  let ?k = "\<lambda>c'. case request_finish (Suc n) e s' [] c' of (r, cache1, c'') \<Rightarrow> (r, c'')"
  let ?p0 = "\<lparr>refs = cache, inflight = [], outcomes = []\<rparr>"
  let ?pid = "next_id c2"
  let ?c2 = "c2\<lparr>next_id := Suc ?pid\<rparr>"
  let ?p1 = "?p0\<lparr>refs := AList.update ?id (Promise ?pid) cache, inflight := [(?pid, ?id, ?k)]\<rparr>"
  let ?c3 = "?c2\<lparr>diag := diag ?c2 @ [''request failed'']\<rparr>"
  let ?p2 = "\<lparr>refs = AList.delete ?id cache, inflight = [], outcomes = [(?pid, Inl (HttpError code))]\<rparr>"
  have o: "sent_fhir s = ?o" using request_start_fhir [OF st] .
  have ro: "opt_resolveReferences ?o = resolveReferences fo" by (simp add: make_options_def)
  have sk: "?start (no_options\<lparr>url := Some ?id, signal := ?sig\<rparr>) c1 = (?k, c2)"
    by (simp add: start_request_def fetch(1))
  have g: "getRef ?start ?id ?sig ?p0 c1 = (Promise ?pid, ?p1, ?c2)"
    using getRef_absent [where start = ?start and p = ?p0 and refId = ?id and sig = ?sig and c = c1
        and k = ?k and ?c1.0 = c2] absent sk by simp
  have items: "resolve_items ?start path False ?sig 0 [Obj kv] ?p0 c1 = (Inr [(path, ?pid)], ?p1, ?c2)"
    using node(2,3) g by (simp del: get_prop.simps)
  have rr: "resolveRef ?start data path ?sig ?p0 c1 = (Inr [(path, ?pid)], ?p1, ?c2)"
    using items node(1) by (simp add: resolveRef_def)
  have k: "?k ?c2 = (Inl (HttpError code), ?c3)"
    by (simp add: failed_fetch [OF fetch(2,3,4)] del: request_finish.simps)
  have sp: "settle_promise ?pid ?p1 ?c2 = (?p2, ?c3)"
    using k by (simp add: settle_promise_def getRef_settled_def delete_update_same del: request_finish.simps)
  have aw: "await_all (opt_graph ?o) [(path, ?pid)] data ?p1 ?c2 =
              (if code = 404 then (Inr data, ?p2, ?c3) else (Inl (HttpError code), ?p2, ?c3))"
    using sp by (simp add: ref_settled_def del: request_finish.simps)
  have rs: "resolveRefs ?start ?o ?sig [data] cache c1 =
              (if code = 404 then (Inr [data], AList.delete ?id cache, ?c3)
               else (Inl (HttpError code), AList.delete ?id cache, ?c3))"
    using rr aw by (simp add: resolveRefs_def ro paths del: request_finish.simps)
  have stage: "resolve_stage ?start ?o ?sig cache data c1 =
              (if code = 404 then (Inr data, AList.delete ?id cache, ?c3)
               else (Inl (HttpError code), AList.delete ?id cache, ?c3))"
    using resp(3) rs by (simp add: resolve_stage_def del: request_finish.simps)
  have pg: "paginate self ?o ?sig cache' data c' = (Inr data, cache', c')" for self cache' c'
    using resp(3) by (simp add: paginate_def)
  show ?thesis
    using resp(1,2) stage pg
    by (simp add: request_Suc [of "Suc n"] st request_chain_def then_data_def o Let_def
        del: request_finish.simps)
qed

text \<open>
  C6. The handlers on the promise of one reference let a rejection pass unless its status is
  404: a 404 leaves the resource as it is (nothing is spliced) and counts as success, any
  other rejection is thrown on. In \<^verbatim>\<open>Promise.all\<close> over the references of a group
  (\<open>await_all\<close>), after a 404 the remaining references are awaited on the untouched resource,
  and any other rejection is the outcome of the whole. A rejection of the resolution step
  is the outcome of the request: no \<^verbatim>\<open>catch\<close> follows it in the chain. For a request whose
  response is a single resource with one path to resolve, holding one reference that is not
  in the cache, and whose reference fetch the server answers with the status \<open>code\<close>
  (other than 401 and 403, which the fetch handles itself): with 404 the request succeeds
  with the resource untouched, with any other code it fails with that error.
\<close>

theorem missing_reference:
  "(status ex = Some 404 \<longrightarrow> ref_settled graph_on target obj (Inl ex) = Inr obj)
   \<and> (status ex \<noteq> Some 404 \<longrightarrow> ref_settled graph_on target obj (Inl ex) = Inl ex)
   \<and> (find (\<lambda>(q, refId, k). q = pid) (inflight p) = Some (pid, refId, k) \<longrightarrow>
        map_of (outcomes p) pid = None \<longrightarrow> k c = (Inl ex, c1) \<longrightarrow>
        await_all graph_on ((target, pid) # ws) obj p c =
          (let p1 = getRef_settled refId pid (Inl ex)
                      (p\<lparr>inflight := filter (\<lambda>(q, refId, k). q \<noteq> pid) (inflight p)\<rparr>)
           in if status ex = Some 404 then await_all graph_on ws obj p1 c1 else (Inl ex, p1, c1)))
   \<and> (sent_response s = Inr data \<longrightarrow> \<not> is_raw data \<longrightarrow>
        resolve_stage start (sent_fhir s) (signal (sent_options s)) cache data c = (Inl ex, cache1, c1) \<longrightarrow>
        request_chain e self start s cache c = (Inl ex, cache1, c1))
   \<and> (request_start e arg fo c0 = (Inr s0, c2) \<longrightarrow>
        sent_response s0 = Inr resource \<longrightarrow> \<not> is_raw resource \<longrightarrow>
        \<not> loose_eq_str (get_prop resource ''resourceType'') ''Bundle'' \<longrightarrow>
        map snd (execution_order (resolveReferences fo)) = [[path]] \<longrightarrow>
        getPath resource path = Obj kv \<longrightarrow> get_prop (Obj kv) ''reference'' = ref \<longrightarrow> truthy ref \<longrightarrow>
        \<not> truthy (get_prop (Obj cache0) (js_string ref)) \<longrightarrow>
        request_start e (Options (no_options\<lparr>url := Some (js_string ref),
                                              signal := signal (sent_options s0)\<rparr>))
          default_fhir_options c2 = (Inr s', c3) \<longrightarrow>
        sent_response s' = Inl (HttpError code) \<longrightarrow> code \<noteq> 401 \<longrightarrow> code \<noteq> 403 \<longrightarrow>
        request (Suc (Suc n)) e arg fo cache0 c0 =
          (let cache' = AList.delete (js_string ref) cache0;
               c' = c3\<lparr>next_id := Suc (next_id c3), diag := diag c3 @ [''request failed'']\<rparr>
           in if code = 404
              then (Inr (fst (finalize (make_options fo) cache' resource)), cache', c')
              else (Inl (HttpError code), cache', c')))"
proof -
  have stages:
    "(status ex = Some 404 \<longrightarrow> ref_settled graph_on target obj (Inl ex) = Inr obj)
   \<and> (status ex \<noteq> Some 404 \<longrightarrow> ref_settled graph_on target obj (Inl ex) = Inl ex)
   \<and> (find (\<lambda>(q, refId, k). q = pid) (inflight p) = Some (pid, refId, k) \<longrightarrow>
        map_of (outcomes p) pid = None \<longrightarrow> k c = (Inl ex, c1) \<longrightarrow>
        await_all graph_on ((target, pid) # ws) obj p c =
          (let p1 = getRef_settled refId pid (Inl ex)
                      (p\<lparr>inflight := filter (\<lambda>(q, refId, k). q \<noteq> pid) (inflight p)\<rparr>)
           in if status ex = Some 404 then await_all graph_on ws obj p1 c1 else (Inl ex, p1, c1)))
   \<and> (sent_response s = Inr data \<longrightarrow> \<not> is_raw data \<longrightarrow>
        resolve_stage start (sent_fhir s) (signal (sent_options s)) cache data c = (Inl ex, cache1, c1) \<longrightarrow>
        request_chain e self start s cache c = (Inl ex, cache1, c1))"
    by (auto simp: ref_settled_def settle_promise_def getRef_settled_def Let_def map_of_append
        request_chain_def then_data_def split: option.splits)
  show ?thesis
    using stages single_reference [of e arg fo c0 s0 c2 resource path kv ref cache0 s' c3 code n]
    by blast
qed

text \<open>On the example server: the subject of observation 2 is answered with 404 and the
  request succeeds with the observation untouched, after exactly the two transport calls;
  the subject of observation 3 is answered with 500 and the request fails with that error.\<close>

lemma example_start:
  assumes "state c = example_state"
  shows "request_start example_env (Options (no_options\<lparr>url := Some u, signal := None\<rparr>)) fo c
     = (Inr \<lparr>sent_url = example_absolute u ''http://s'',
              sent_options = bearer ''a0'' (no_options\<lparr>url := Some u\<rparr>),
              sent_fhir = make_options fo,
              sent_response = example_server (example_absolute u ''http://s'')
                                (bearer ''a0'' (no_options\<lparr>url := Some u\<rparr>))\<rparr>,
        example_sent (example_absolute u ''http://s'') (bearer ''a0'' (no_options\<lparr>url := Some u\<rparr>)) c)"
  using assms
  by (simp add: request_start_def example_env_def example_state_def example_sent_def bearer_def
      no_options_def getAuthorizationHeader_def token_field_def Let_def)

lemma example_start_url:
  assumes "state c = example_state" "u \<noteq> []"
  shows "request_start example_env (Url u) fo c
     = (Inr \<lparr>sent_url = example_absolute u ''http://s'',
              sent_options = bearer ''a0'' no_options,
              sent_fhir = make_options fo,
              sent_response = example_server (example_absolute u ''http://s'') (bearer ''a0'' no_options)\<rparr>,
        example_sent (example_absolute u ''http://s'') (bearer ''a0'' no_options) c)"
  using assms
  by (simp add: request_start_def example_env_def example_state_def example_sent_def bearer_def
      no_options_def getAuthorizationHeader_def token_field_def Let_def)

theorem missing_reference_witness:
  "fst (request 2 example_env (Url ''Observation/2'') resolve_options [] example_client)
     = Inr (observation ''2'' ''Patient/404'')
   \<and> fst (request 2 example_env (Url ''Observation/3'') resolve_options [] example_client)
     = Inl (HttpError 500)
   \<and> map fst (net (snd (snd (request 2 example_env (Url ''Observation/2'') resolve_options []
                               example_client))))
     = [''http://s/Observation/2'', ''http://s/Patient/404'']"
proof -
  have paths: "map snd (execution_order (resolveReferences resolve_options)) = [[''subject'']]"
    by code_simp
  have c: "state example_client = example_state"
    by (simp add: example_client_def)
  have fin: "fst (finalize (make_options resolve_options) cache d) = d" for cache d
    by (simp add: finalize_def make_options_def resolve_options_def default_fhir_options_def)
  have run: "request 2 example_env (Url u) resolve_options [] example_client =
      (let c' = (example_sent (example_absolute r ''http://s'') (bearer ''a0'' (no_options\<lparr>url := Some r\<rparr>))
                  (example_sent (example_absolute u ''http://s'') (bearer ''a0'' no_options) example_client))
      in if code = 404
         then (Inr (observation i r), [], c'\<lparr>next_id := Suc (next_id c'), diag := diag c' @ [''request failed'']\<rparr>)
         else (Inl (HttpError code), [], c'\<lparr>next_id := Suc (next_id c'), diag := diag c' @ [''request failed'']\<rparr>))"
    if u: "u \<noteq> []" and r: "r \<noteq> []"
      and first: "example_server (example_absolute u ''http://s'') (bearer ''a0'' no_options)
                    = Inr (observation i r)"
      and second: "example_server (example_absolute r ''http://s'') (bearer ''a0'' (no_options\<lparr>url := Some r\<rparr>))
                    = Inl (HttpError code)"
      and code: "code \<noteq> 401" "code \<noteq> 403"
    for u i r code
  proof -
    let ?s = "\<lparr>sent_url = example_absolute u ''http://s'', sent_options = bearer ''a0'' no_options,
               sent_fhir = make_options resolve_options, sent_response = Inr (observation i r)\<rparr>"
    let ?c1 = "example_sent (example_absolute u ''http://s'') (bearer ''a0'' no_options) example_client"
    let ?s' = "\<lparr>sent_url = example_absolute r ''http://s'',
               sent_options = bearer ''a0'' (no_options\<lparr>url := Some r\<rparr>),
               sent_fhir = make_options default_fhir_options, sent_response = Inl (HttpError code)\<rparr>"
    let ?c2 = "example_sent (example_absolute r ''http://s'') (bearer ''a0'' (no_options\<lparr>url := Some r\<rparr>)) ?c1"
    have h1: "request_start example_env (Url u) resolve_options example_client = (Inr ?s, ?c1)"
      using example_start_url [OF c u, of resolve_options] first by simp
    have h2: "sent_response ?s = Inr (observation i r)" by simp
    have h3: "\<not> is_raw (observation i r)"
      "\<not> loose_eq_str (get_prop (observation i r) ''resourceType'') ''Bundle''"
      by (simp_all add: observation_def)
    have h4: "getPath (observation i r) ''subject'' = Obj [(''reference'', Str r)]"
      by (simp add: getPath_def trim_def is_space_def observation_def)
    have h5: "get_prop (Obj [(''reference'', Str r)]) ''reference'' = Str r" "truthy (Str r)"
      "\<not> truthy (get_prop (Obj []) (js_string (Str r)))"
      using r by simp_all
    have c1: "state ?c1 = example_state"
      by (simp add: example_client_def example_sent_def)
    have h6: "request_start example_env
        (Options (no_options\<lparr>url := Some (js_string (Str r)), signal := signal (sent_options ?s)\<rparr>))
        default_fhir_options ?c1 = (Inr ?s', ?c2)"
      using example_start [OF c1, of r default_fhir_options] second
      by (simp add: bearer_def no_options_def)
    have h7: "sent_response ?s' = Inl (HttpError code)" by simp
    show ?thesis
      using missing_reference [THEN conjunct2, THEN conjunct2, THEN conjunct2, THEN conjunct2, rule_format,
          where n = 0 and ?cache0.0 = "[]",
          OF h1 h2 h3 paths h4 h5 h6 h7 code]
      by (simp add: fin numeral_2_eq_2 Let_def)
  qed
  have u: "example_absolute ''Observation/2'' ''http://s'' = ''http://s/Observation/2''"
    "example_absolute ''Observation/3'' ''http://s'' = ''http://s/Observation/3''"
    "example_absolute ''Patient/404'' ''http://s'' = ''http://s/Patient/404''"
    "example_absolute ''Patient/500'' ''http://s'' = ''http://s/Patient/500''"
    by (simp_all add: example_absolute_def)
  have srv: "example_server ''http://s/Observation/2'' ro = Inr (observation ''2'' ''Patient/404'')"
    "example_server ''http://s/Observation/3'' ro = Inr (observation ''3'' ''Patient/500'')"
    "example_server ''http://s/Patient/404'' ro = Inl (HttpError 404)"
    "example_server ''http://s/Patient/500'' ro = Inl (HttpError 500)" for ro
    by (simp_all add: example_server_def)
  note r404 = run [of "''Observation/2''" "''Patient/404''" "''2''" 404, unfolded u srv, simplified]
  note r500 = run [of "''Observation/3''" "''Patient/500''" "''3''" 500, unfolded u srv, simplified]
  show ?thesis
    using r404 r500 by (simp add: Let_def example_sent_def example_client_def)
qed

subsection \<open>One fetch for each reference\<close>





end
